theory Spec2Isabelle
  imports Complex_Main
begin

section \<open>JavaScript values and outcomes\<close>

text \<open>
  The runtime values the evaluation context receives.  A number is an IEEE double: a
  finite double is the real number it denotes (\<open>VNum\<close>), and the other doubles are
  \<open>Infinity\<close>, \<open>-Infinity\<close> and \<open>NaN\<close>.  Comparing finite doubles is comparing the reals;
  arithmetic on doubles rounds and is the host's (see the curve evaluation).  Every
  object, whatever its class, is a list of own properties (in the order \<open>Object.keys\<close>
  lists them, each with its enumerable flag) and a prototype, which is \<open>VNull\<close> or
  another object.  The only function objects a feature's data can reach are built-ins
  found on prototypes; they are named.
\<close>

datatype objclass = PlainObject | ArrayObject | ColorObject | BuiltinFn string

datatype jsval =
    VUndefined
  | VNull
  | VBool bool
  | VNum real
  | VInfinity
  | VNegInfinity
  | VNaN
  | VStr string
  | VObject objclass "(string \<times> bool \<times> jsval) list" jsval

record RuntimeError =
  name :: string
  message :: string

text \<open>
  A JavaScript call returns a value or throws.  \<open>Error\<close> is \<open>throw new Error(...)\<close> with
  its message; \<open>Thrown_RuntimeError\<close> is the evaluation context's own class;
  \<open>TypeError\<close>, \<open>AssertionError\<close>, \<open>SyntaxError\<close> and \<open>RangeError\<close> are raised by the engine
  (a property read on \<open>undefined\<close>, a call of a non-function, a failed \<open>assert\<close>,
  \<open>new Function\<close> on text that does not parse, a recursion that exhausts the call stack);
  their messages differ between engines and are not modelled.
\<close>

datatype 'm jserror =
    Error 'm
  | Thrown_RuntimeError RuntimeError
  | TypeError
  | AssertionError
  | SyntaxError
  | RangeError

datatype ('m, 'a) outcome = Throw "'m jserror" | Ret 'a

definition RuntimeError_new :: "string \<Rightarrow> RuntimeError" where
  "RuntimeError_new msg = \<lparr> name = ''ExpressionEvaluationError'', message = msg \<rparr>"

definition toJSON :: "RuntimeError \<Rightarrow> string" where
  "toJSON err = name err @ '': '' @ message err"

text \<open>\<open>Array.prototype.join\<close> on strings, as a template literal applies it to an array.\<close>

fun join :: "string \<Rightarrow> string list \<Rightarrow> string" where
  "join sep [] = []"
| "join sep [x] = x"
| "join sep (x # y # ys) = x @ sep @ join sep (y # ys)"

subsection \<open>Property access\<close>

fun own_lookup :: "(string \<times> bool \<times> jsval) list \<Rightarrow> string \<Rightarrow> jsval option" where
  "own_lookup [] k = None"
| "own_lookup ((k', en, v) # ps) k = (if k' = k then Some v else own_lookup ps k)"

text \<open>\<open>key in obj\<close> and \<open>obj[key]\<close> on an object: own properties, then the prototype chain.\<close>

fun chain_lookup :: "jsval \<Rightarrow> string \<Rightarrow> jsval option" where
  "chain_lookup (VObject c ps proto) k =
     (case own_lookup ps k of Some v \<Rightarrow> Some v | None \<Rightarrow> chain_lookup proto k)"
| "chain_lookup v k = None"

fun hasOwn :: "jsval \<Rightarrow> string \<Rightarrow> bool" where
  "hasOwn (VObject c ps proto) k = (own_lookup ps k \<noteq> None)"
| "hasOwn v k = False"

fun Object_keys :: "jsval \<Rightarrow> string list" where
  "Object_keys (VObject c ps proto) = map fst (filter (\<lambda>p. fst (snd p)) ps)"
| "Object_keys v = []"

fun truthy :: "jsval \<Rightarrow> bool" where
  "truthy VUndefined = False"
| "truthy VNull = False"
| "truthy (VBool b) = b"
| "truthy (VNum r) = (r \<noteq> 0)"
| "truthy VInfinity = True"
| "truthy VNegInfinity = True"
| "truthy VNaN = False"
| "truthy (VStr s) = (s \<noteq> [])"
| "truthy (VObject c ps proto) = True"

fun is_object :: "jsval \<Rightarrow> bool" where
  "is_object (VObject c ps proto) = True"
| "is_object v = False"

text \<open>
  The part of the host's \<open>Object.prototype\<close> the development refers to, and the empty
  object literal \<open>{}\<close> that inherits from it.  Built-in properties are not enumerable.
\<close>

definition Object_prototype :: jsval where
  "Object_prototype = VObject PlainObject
     [(''constructor'', False, VObject (BuiltinFn ''Object'') [] VNull),
      (''hasOwnProperty'', False, VObject (BuiltinFn ''hasOwnProperty'') [] VNull),
      (''isPrototypeOf'', False, VObject (BuiltinFn ''isPrototypeOf'') [] VNull),
      (''propertyIsEnumerable'', False, VObject (BuiltinFn ''propertyIsEnumerable'') [] VNull),
      (''toLocaleString'', False, VObject (BuiltinFn ''toLocaleString'') [] VNull),
      (''toString'', False, VObject (BuiltinFn ''toString'') [] VNull),
      (''valueOf'', False, VObject (BuiltinFn ''valueOf'') [] VNull)]
     VNull"

definition object_literal :: "(string \<times> jsval) list \<Rightarrow> jsval" where
  "object_literal kvs = VObject PlainObject (map (\<lambda>(k, v). (k, True, v)) kvs) Object_prototype"

section \<open>The evaluation context\<close>

text \<open>
  \<open>get\<close>: the key is a String by type checking.  \<open>key in obj\<close> on a truthy value that
  is not an object is a \<open>TypeError\<close> of the engine.
\<close>

definition get :: "jsval \<Rightarrow> string \<Rightarrow> (string, jsval) outcome" where
  "get obj key =
     (if \<not> truthy obj then
        Throw (Thrown_RuntimeError (RuntimeError_new
          (''Cannot get property '' @ key @ '' from null object'')))
      else if \<not> is_object obj then Throw TypeError
      else (case chain_lookup obj key of
              None \<Rightarrow> Throw (Thrown_RuntimeError (RuntimeError_new
                (''Property '' @ key @ '' not found in object with keys: ['' @
                 join '','' (Object_keys obj) @ '']'')))
            | Some v \<Rightarrow> Ret v))"

definition asObject :: "jsval \<Rightarrow> (string, jsval) outcome" where
  "asObject obj =
     (if truthy obj \<and> (is_object obj \<and> (case obj of VObject (BuiltinFn f) ps proto \<Rightarrow> False | _ \<Rightarrow> True))
      then Ret obj
      else Throw (Thrown_RuntimeError (RuntimeError_new ''Expected an object'')))"

text \<open>
  A method call \<open>a.m(args)\<close> of the host language.  The receiver \<open>null\<close> or \<open>undefined\<close>
  is a \<open>TypeError\<close>; the method is looked up through the prototype chain of the
  receiver, and a property that is absent or not a function is a \<open>TypeError\<close>.  Of the
  built-ins only \<open>Object.prototype.hasOwnProperty\<close> is described: it tests the own
  properties of the receiver for the key.  The result is \<open>None\<close> where this model does
  not describe the call: the receiver is a primitive value, or the property holds
  another built-in.
\<close>

definition call_builtin ::
  "string \<Rightarrow> jsval \<Rightarrow> jsval list \<Rightarrow> (string, jsval) outcome option" where
  "call_builtin f receiver args =
     (if f = ''hasOwnProperty''
      then (case args of VStr k # rest \<Rightarrow> Some (Ret (VBool (hasOwn receiver k))) | _ \<Rightarrow> None)
      else None)"

definition method_call ::
  "jsval \<Rightarrow> string \<Rightarrow> jsval list \<Rightarrow> (string, jsval) outcome option" where
  "method_call a m args =
     (if a = VUndefined \<or> a = VNull then Some (Throw TypeError)
      else if \<not> is_object a then None
      else (case chain_lookup a m of
              Some (VObject (BuiltinFn f) ps proto) \<Rightarrow> call_builtin f a args
            | _ \<Rightarrow> Some (Throw TypeError)))"

text \<open>
  The text the \<open>has\<close> operator compiles to is \<open>a.hasOwnProperty(k)\<close>, where \<open>a\<close> and \<open>k\<close> are
  the texts of its two arguments: a method call with the values of the arguments.
\<close>

definition has_body :: "jsval \<Rightarrow> string \<Rightarrow> (string, jsval) outcome option" where
  "has_body a k = method_call a ''hasOwnProperty'' [VStr k]"

section \<open>Curve evaluation\<close>

text \<open>
  \<open>undefined\<close> read from beyond the end of an array is \<open>None\<close>; every comparison with it
  is false, as in JavaScript.
\<close>

definition nth_opt :: "'a list \<Rightarrow> int \<Rightarrow> 'a option" where
  "nth_opt xs i = (if 0 \<le> i \<and> i < int (length xs) then Some (xs ! nat i) else None)"

definition lt_undef :: "real \<Rightarrow> real option \<Rightarrow> bool" where
  "lt_undef x u = (case u of None \<Rightarrow> False | Some y \<Rightarrow> x < y)"

definition le_undef :: "real \<Rightarrow> real option \<Rightarrow> bool" where
  "le_undef x u = (case u of None \<Rightarrow> False | Some y \<Rightarrow> x \<le> y)"

text \<open>
  The \<open>while\<close> loop of \<open>findStopLessThanOrEqualTo\<close>.  \<open>lowerIndex\<close> starts at 0 and only
  grows, \<open>upperIndex\<close> starts at \<open>n - 1\<close> and only shrinks, so \<open>stops[currentIndex]\<close> is
  always read inside the array.  On real numbers the third test \<open>currentValue > input\<close> is
  the only case left after the first two.
\<close>

function findStop_loop :: "real list \<Rightarrow> real \<Rightarrow> int \<Rightarrow> int \<Rightarrow> int \<Rightarrow> int" where
  "findStop_loop stops input lowerIndex upperIndex currentIndex =
     (if lowerIndex \<le> upperIndex then
        (let currentIndex' = (lowerIndex + upperIndex) div 2;
             currentValue = stops ! nat currentIndex';
             upperValue = nth_opt stops (currentIndex' + 1)
         in if input = currentValue \<or> (input > currentValue \<and> lt_undef input upperValue)
            then currentIndex'
            else if currentValue < input
            then findStop_loop stops input (currentIndex' + 1) upperIndex currentIndex'
            else findStop_loop stops input lowerIndex (currentIndex' - 1) currentIndex')
      else max (currentIndex - 1) 0)"
  by pat_completeness auto
termination
  by (relation "measure (\<lambda>(stops, input, lo, hi, cur). nat (hi - lo + 1))") auto

declare findStop_loop.simps [simp del]

definition findStopLessThanOrEqualTo :: "real list \<Rightarrow> real \<Rightarrow> int" where
  "findStopLessThanOrEqualTo stops input =
     findStop_loop stops input 0 (int (length stops) - 1) 0"

text \<open>
  The host functions the context calls: the subtraction and the division of doubles,
  \<open>Math.pow\<close>, and the two interpolation routines of \<open>util/interpolate\<close>.  They are
  parameters of the model: the arithmetic is IEEE arithmetic, whose results are rounded
  and can be infinite or \<open>NaN\<close>, and it is applied to \<open>undefined\<close> where the source reads
  beyond an array.
\<close>

record host =
  number_minus :: "jsval \<Rightarrow> jsval \<Rightarrow> jsval"
  number_divide :: "jsval \<Rightarrow> jsval \<Rightarrow> jsval"
  Math_pow :: "jsval \<Rightarrow> jsval \<Rightarrow> jsval"
  interpolate_number :: "jsval \<Rightarrow> jsval \<Rightarrow> jsval \<Rightarrow> jsval"
  interpolate_color :: "jsval \<Rightarrow> jsval \<Rightarrow> jsval \<Rightarrow> jsval"

definition interpolationFactor :: "host \<Rightarrow> jsval \<Rightarrow> jsval \<Rightarrow> jsval \<Rightarrow> jsval \<Rightarrow> jsval" where
  "interpolationFactor H input base lowerValue upperValue =
     (let difference = number_minus H upperValue lowerValue;
          progress = number_minus H input lowerValue
      in if base = VNum 1 then number_divide H progress difference
         else number_divide H
                (number_minus H (Math_pow H base progress) (VNum 1))
                (number_minus H (Math_pow H base difference) (VNum 1)))"

record interpolation =
  interp_name :: string
  interp_base :: "real option"

text \<open>A stop output is a thunk; invoking the thunk at index \<open>i\<close> gives \<open>stopOutputs ! i\<close>.\<close>

definition call_output :: "(string, jsval) outcome list \<Rightarrow> int \<Rightarrow> (string, jsval) outcome" where
  "call_output stopOutputs i =
     (case nth_opt stopOutputs i of None \<Rightarrow> Throw TypeError | Some r \<Rightarrow> r)"

text \<open>\<open>x.value\<close>\<close>

definition value_of :: "jsval \<Rightarrow> (string, jsval) outcome" where
  "value_of x =
     (if x = VUndefined \<or> x = VNull then Throw TypeError
      else (case chain_lookup x ''value'' of None \<Rightarrow> Ret VUndefined | Some v \<Rightarrow> Ret v))"

text \<open>\<open>new Color(input)\<close> on an array: the array becomes the \<open>value\<close> of the new object.\<close>

definition Color_prototype :: jsval where
  "Color_prototype = VObject PlainObject
     [(''constructor'', False, VObject (BuiltinFn ''Color'') [] VNull)] Object_prototype"

definition Color_new_array :: "jsval \<Rightarrow> jsval" where
  "Color_new_array input = VObject ColorObject [(''value'', True, input)] Color_prototype"

text \<open>
  \<open>evaluateCurve\<close>.  The input is a finite number, and so are the stops, which the
  compiler takes from literals.
\<close>

definition number_or_undefined :: "real option \<Rightarrow> jsval" where
  "number_or_undefined x = (case x of None \<Rightarrow> VUndefined | Some r \<Rightarrow> VNum r)"

definition evaluateCurve ::
  "host \<Rightarrow> real \<Rightarrow> real list \<Rightarrow> (string, jsval) outcome list \<Rightarrow> interpolation \<Rightarrow> string
   \<Rightarrow> (string, jsval) outcome" where
  "evaluateCurve H input stopInputs stopOutputs interpolation resultType =
     (let stopCount = int (length stopInputs) in
      if le_undef input (nth_opt stopInputs 0) then call_output stopOutputs 0
      else if (case nth_opt stopInputs (stopCount - 1) of None \<Rightarrow> False | Some l \<Rightarrow> input \<ge> l)
      then call_output stopOutputs (stopCount - 1)
      else
        (let index = findStopLessThanOrEqualTo stopInputs input in
         if interp_name interpolation = ''step'' then call_output stopOutputs index
         else
          (let base = (if interp_name interpolation = ''exponential''
                       then number_or_undefined (interp_base interpolation) else VNum 1);
               t = interpolationFactor H (VNum input) base
                     (number_or_undefined (nth_opt stopInputs index))
                     (number_or_undefined (nth_opt stopInputs (index + 1)))
           in if resultType = ''color'' then
                (case call_output stopOutputs index of Throw e \<Rightarrow> Throw e | Ret lo \<Rightarrow>
                 case value_of lo of Throw e \<Rightarrow> Throw e | Ret lov \<Rightarrow>
                 case call_output stopOutputs (index + 1) of Throw e \<Rightarrow> Throw e | Ret hi \<Rightarrow>
                 case value_of hi of Throw e \<Rightarrow> Throw e | Ret hiv \<Rightarrow>
                   Ret (Color_new_array (interpolate_color H lov hiv t)))
              else
                (case call_output stopOutputs index of Throw e \<Rightarrow> Throw e | Ret lo \<Rightarrow>
                 case call_output stopOutputs (index + 1) of Throw e \<Rightarrow> Throw e | Ret hi \<Rightarrow>
                   if resultType = ''number'' then Ret (interpolate_number H lo hi t)
                   else Throw TypeError))))"

section \<open>Types\<close>

text \<open>
  Modelled from the spec: the module \<open>types\<close> (the type constructors and the \<open>name\<close>
  of a type) is not among the sources.  The constructors are those of the spec's data
  model, the kinds are the strings the checker compares \<open>kind\<close> with.  Types are compared
  structurally.  \<open>Value\<close> is the top type: it matches every primitive except
  \<open>Interpolation\<close>, and \<open>Vector<Value>\<close>.  For the checker, which knows a type only by its
  \<open>kind\<close>, it is the variant named \<open>Value\<close> whose members are those six primitives and
  \<open>Vector<Value>\<close>; the member refers back to \<open>Value\<close> itself, which is the self-reference
  the stack of \<open>isGeneric\<close> is there for.
\<close>

datatype ty =
    Primitive string
  | Value
  | Vector ty
  | Array ty nat
  | AnyArray ty
  | Variant "ty list"
  | Typename string
  | NArgs "ty list"
  | Lambda ty "ty list"

definition NullType :: ty where "NullType = Primitive ''Null''"
definition NumberType :: ty where "NumberType = Primitive ''Number''"
definition StringType :: ty where "StringType = Primitive ''String''"
definition BooleanType :: ty where "BooleanType = Primitive ''Boolean''"
definition ColorType :: ty where "ColorType = Primitive ''Color''"
definition ObjectType :: ty where "ObjectType = Primitive ''Object''"
definition ValueType :: ty where "ValueType = Value"
definition InterpolationType :: ty where "InterpolationType = Primitive ''Interpolation''"

lemmas primitive_defs = NullType_def NumberType_def StringType_def BooleanType_def
  ColorType_def ObjectType_def ValueType_def InterpolationType_def

fun kind :: "ty \<Rightarrow> string" where
  "kind (Primitive n) = ''primitive''"
| "kind Value = ''variant''"
| "kind (Vector t) = ''vector''"
| "kind (Array t n) = ''array''"
| "kind (AnyArray t) = ''any_array''"
| "kind (Variant ts) = ''variant''"
| "kind (Typename n) = ''typename''"
| "kind (NArgs ts) = ''nargs''"
| "kind (Lambda r as) = ''lambda''"

text \<open>The \<open>members\<close> of a type of kind \<open>variant\<close>.\<close>

definition value_members :: "ty list" where
  "value_members =
     [NullType, NumberType, StringType, BooleanType, ColorType, ObjectType, Vector Value]"

fun members_of :: "ty \<Rightarrow> ty list option" where
  "members_of (Variant ts) = Some ts"
| "members_of Value = Some value_members"
| "members_of t = None"

text \<open>Decimal digits of a natural number, as a template literal prints a count.\<close>

definition digit :: "nat \<Rightarrow> char" where
  "digit n = ''0123456789'' ! n"

function decimal :: "nat \<Rightarrow> string" where
  "decimal n = (if n < 10 then [digit n] else decimal (n div 10) @ [digit (n mod 10)])"
  by pat_completeness auto
termination
  by (relation "measure id") auto

declare decimal.simps [simp del]

text \<open>
  Modelled from the spec: the pretty name of a type.  The spec fixes the names of the
  primitives and the forms \<open>Vector<T>\<close>, \<open>Array<T,4>\<close> and \<open>(String | Number)\<close>; the forms
  for the other kinds are chosen here, and no result below depends on them.
\<close>

fun type_name :: "ty \<Rightarrow> string" where
  "type_name (Primitive n) = n"
| "type_name Value = ''Value''"
| "type_name (Vector t) = ''Vector<'' @ type_name t @ ''>''"
| "type_name (Array t n) = ''Array<'' @ type_name t @ '','' @ decimal n @ ''>''"
| "type_name (AnyArray t) = ''Array<'' @ type_name t @ ''>''"
| "type_name (Variant ts) = ''('' @ join '' | '' (map type_name ts) @ '')''"
| "type_name (Typename n) = n"
| "type_name (NArgs ts) = join '', '' (map type_name ts) @ '', ...''"
| "type_name (Lambda r as) = ''('' @ join '', '' (map type_name as) @ '') => '' @ type_name r"

section \<open>Type matching\<close>

text \<open>
  \<open>isGeneric\<close>.  The source carries a stack of the types on the path from the root and
  answers false on a type that is already on it; the only type that can recur on such a
  path is \<open>Value\<close>, reached again through its member \<open>Vector<Value>\<close>, and none of its
  members has a type name, so \<open>Value\<close> is not generic.  As in the source, only \<open>vector\<close>,
  \<open>array\<close> and \<open>variant\<close> are descended into.
\<close>

fun isGeneric :: "ty \<Rightarrow> bool" where
  "isGeneric (Typename n) = True"
| "isGeneric (Vector t) = isGeneric t"
| "isGeneric (Array t n) = isGeneric t"
| "isGeneric (Variant ts) = list_ex isGeneric ts"
| "isGeneric t = False"

type_synonym typenames = "string \<Rightarrow> ty option"

text \<open>\<open>util.extend(dest, src)\<close>: the entries of \<open>src\<close> are written over \<open>dest\<close>.\<close>

definition util_extend :: "typenames \<Rightarrow> typenames \<Rightarrow> typenames" where
  "util_extend dest src = dest ++ src"

definition error_message :: "ty \<Rightarrow> ty \<Rightarrow> string" where
  "error_message expected t =
     ''Expected '' @ type_name expected @ '' but found '' @ type_name t @ '' instead.''"

text \<open>
  The first steps of \<open>matchTypeError\<close>: an actual lambda stands for its result, and with a
  map an actual type name is replaced by its binding, or bound to the expected type when
  that is not generic.
\<close>

definition unwrap_lambda :: "ty \<Rightarrow> ty" where
  "unwrap_lambda t0 = (case t0 of Lambda r as \<Rightarrow> r | _ \<Rightarrow> t0)"

definition substitute :: "typenames option \<Rightarrow> ty \<Rightarrow> ty \<Rightarrow> ty \<times> typenames option" where
  "substitute typenameMap expected t1 =
     (case (typenameMap, t1) of
        (Some m, Typename n) \<Rightarrow>
          (case m n of
             Some b \<Rightarrow> (b, Some m)
           | None \<Rightarrow> if \<not> isGeneric expected then (expected, Some (m(n \<mapsto> expected)))
                     else (t1, Some m))
      | _ \<Rightarrow> (t1, typenameMap))"

text \<open>What the caller makes of the result of matching the item types: a nested message.\<close>

definition nested ::
  "string \<Rightarrow> (string, string option \<times> typenames option) outcome
   \<Rightarrow> (string, string option \<times> typenames option) outcome" where
  "nested errorMessage r =
     (case r of
        Throw x \<Rightarrow> Throw x
      | Ret (Some err, tm') \<Rightarrow> Ret (Some (errorMessage @ ''. ('' @ err @ '')''), tm')
      | Ret (None, tm') \<Rightarrow> Ret (None, tm'))"

definition nested_array ::
  "string \<Rightarrow> bool \<Rightarrow> (string, string option \<times> typenames option) outcome
   \<Rightarrow> (string, string option \<times> typenames option) outcome" where
  "nested_array errorMessage sizes_differ r =
     (case r of
        Throw x \<Rightarrow> Throw x
      | Ret (Some err, tm') \<Rightarrow> Ret (Some (errorMessage @ ''. ('' @ err @ '')''), tm')
      | Ret (None, tm') \<Rightarrow>
          if sizes_differ then Ret (Some errorMessage, tm') else Ret (None, tm'))"

text \<open>
  \<open>matchTypeError(expected, t, typenameMap?)\<close> returns \<open>null\<close> (here \<open>None\<close>) or a message,
  and leaves its writes in the map it was given; the model returns the map with the
  result.  The recursion need not end: matching \<open>Value\<close> descends into the actual type,
  and a map may bind a name to a type that leads back to the name.  It is therefore a
  partial function, of one argument that says which of three computations is asked for:
  \<open>matchTypeError\<close> itself, the loop over the members of an expected variant (which
  answers with the map to keep when a member matched), and \<open>some\<close> over the members of an
  actual variant.  A type that is not a valid expected type throws.
\<close>

datatype match_call =
    Match ty ty "typenames option"
  | Members "ty list" ty "typenames option"
  | AnyMember ty "ty list"

datatype match_result =
    Matched "(string, string option \<times> typenames option) outcome"
  | MemberMatched "(string, typenames option option) outcome"
  | SomeFailed "(string, bool) outcome"

partial_function (option) match_rec :: "match_call \<Rightarrow> match_result option" where
  "match_rec c =
     (case c of
        Match expected t0 typenameMap \<Rightarrow>
          (case (typenameMap, expected) of
             (Some m, Typename n) \<Rightarrow>
               Some (Matched (Ret (None,
                 Some (if m n = None \<and> \<not> isGeneric (unwrap_lambda t0)
                       then m(n \<mapsto> unwrap_lambda t0) else m))))
           | _ \<Rightarrow>
              (case expected of
                 Primitive n \<Rightarrow>
                   Some (Matched
                     (if fst (substitute typenameMap expected (unwrap_lambda t0)) = expected
                      then Ret (None, snd (substitute typenameMap expected (unwrap_lambda t0)))
                      else Ret (Some (error_message expected t0),
                                snd (substitute typenameMap expected (unwrap_lambda t0)))))
               | Vector itemType \<Rightarrow>
                   (case fst (substitute typenameMap expected (unwrap_lambda t0)) of
                      Vector itemType' \<Rightarrow>
                        Option.bind
                          (match_rec (Match itemType itemType'
                             (snd (substitute typenameMap expected (unwrap_lambda t0)))))
                          (\<lambda>r. case r of
                                 Matched res \<Rightarrow>
                                   Some (Matched (nested (error_message expected t0) res))
                               | _ \<Rightarrow> None)
                    | _ \<Rightarrow> Some (Matched (Ret (Some (error_message expected t0),
                             snd (substitute typenameMap expected (unwrap_lambda t0))))))
               | AnyArray itemType \<Rightarrow>
                   (case fst (substitute typenameMap expected (unwrap_lambda t0)) of
                      Array itemType' n' \<Rightarrow>
                        Option.bind
                          (match_rec (Match itemType itemType'
                             (snd (substitute typenameMap expected (unwrap_lambda t0)))))
                          (\<lambda>r. case r of
                                 Matched res \<Rightarrow>
                                   Some (Matched (nested_array (error_message expected t0) False res))
                               | _ \<Rightarrow> None)
                    | _ \<Rightarrow> Some (Matched (Ret (Some (error_message expected t0),
                             snd (substitute typenameMap expected (unwrap_lambda t0))))))
               | Array itemType n \<Rightarrow>
                   (case fst (substitute typenameMap expected (unwrap_lambda t0)) of
                      Array itemType' n' \<Rightarrow>
                        Option.bind
                          (match_rec (Match itemType itemType'
                             (snd (substitute typenameMap expected (unwrap_lambda t0)))))
                          (\<lambda>r. case r of
                                 Matched res \<Rightarrow>
                                   Some (Matched (nested_array (error_message expected t0) (n \<noteq> n') res))
                               | _ \<Rightarrow> None)
                    | _ \<Rightarrow> Some (Matched (Ret (Some (error_message expected t0),
                             snd (substitute typenameMap expected (unwrap_lambda t0))))))
               | _ \<Rightarrow>
                  (case members_of expected of
                     None \<Rightarrow>
                       Some (Matched (Throw (Error (type_name expected @
                                                     '' is not a valid output type.''))))
                   | Some members \<Rightarrow>
                       if fst (substitute typenameMap expected (unwrap_lambda t0)) = expected
                       then Some (Matched (Ret (None,
                              snd (substitute typenameMap expected (unwrap_lambda t0)))))
                       else
                         Option.bind
                           (match_rec (Members members
                              (fst (substitute typenameMap expected (unwrap_lambda t0)))
                              (snd (substitute typenameMap expected (unwrap_lambda t0)))))
                           (\<lambda>r. case r of
                                  MemberMatched (Throw x) \<Rightarrow> Some (Matched (Throw x))
                                | MemberMatched (Ret (Some tm')) \<Rightarrow> Some (Matched (Ret (None, tm')))
                                | MemberMatched (Ret None) \<Rightarrow>
                                    (case members_of
                                            (fst (substitute typenameMap expected (unwrap_lambda t0))) of
                                       Some tmembers \<Rightarrow>
                                         Option.bind (match_rec (AnyMember expected tmembers))
                                           (\<lambda>r'. case r' of
                                                   SomeFailed (Throw x) \<Rightarrow> Some (Matched (Throw x))
                                                 | SomeFailed (Ret b) \<Rightarrow>
                                                     Some (Matched (Ret
                                                       (if b then Some (error_message expected t0)
                                                        else None,
                                                        snd (substitute typenameMap expected
                                                               (unwrap_lambda t0)))))
                                                 | _ \<Rightarrow> None)
                                     | None \<Rightarrow>
                                         Some (Matched (Ret (Some (error_message expected t0),
                                           snd (substitute typenameMap expected (unwrap_lambda t0))))))
                                | _ \<Rightarrow> None))))
      | Members members t tm \<Rightarrow>
          (case members of
             [] \<Rightarrow> Some (MemberMatched (Ret None))
           | memberType # rest \<Rightarrow>
               Option.bind (match_rec (Match memberType t tm))
                 (\<lambda>r. case r of
                        Matched (Throw x) \<Rightarrow> Some (MemberMatched (Throw x))
                      | Matched (Ret (None, memberTypeNames)) \<Rightarrow>
                          Some (MemberMatched (Ret (Some
                            (case (tm, memberTypeNames) of
                               (Some m, Some m') \<Rightarrow> Some (util_extend m m')
                             | _ \<Rightarrow> tm))))
                      | Matched (Ret (Some err, memberTypeNames)) \<Rightarrow>
                          match_rec (Members rest t tm)
                      | _ \<Rightarrow> None))
      | AnyMember expected tmembers \<Rightarrow>
          (case tmembers of
             [] \<Rightarrow> Some (SomeFailed (Ret False))
           | m # ms \<Rightarrow>
               Option.bind (match_rec (Match expected m None))
                 (\<lambda>r. case r of
                        Matched (Throw x) \<Rightarrow> Some (SomeFailed (Throw x))
                      | Matched (Ret (Some err, tm)) \<Rightarrow> Some (SomeFailed (Ret True))
                      | Matched (Ret (None, tm)) \<Rightarrow> match_rec (AnyMember expected ms)
                      | _ \<Rightarrow> None)))"

declare match_rec.simps [code]

text \<open>
  A recursion that does not end exhausts the call stack of the engine, which throws a
  \<open>RangeError\<close>.
\<close>

definition matchTypeError ::
  "ty \<Rightarrow> ty \<Rightarrow> typenames option \<Rightarrow> (string, string option \<times> typenames option) outcome" where
  "matchTypeError expected t typenameMap =
     (case match_rec (Match expected t typenameMap) of
        Some (Matched r) \<Rightarrow> r
      | _ \<Rightarrow> Throw RangeError)"

section \<open>Expressions\<close>

text \<open>The raw input: any JSON-shaped value, or \<open>undefined\<close>.\<close>

datatype json =
    JUndefined
  | JNull
  | JBool bool
  | JNum real
  | JStr string
  | JArr "json list"
  | JObj "(string \<times> json) list"

text \<open>
  Generated code and messages are text assembled by template literals.  Where a template
  splices in \<open>JSON.stringify(v)\<close> or the string conversion of a value, the piece records
  the value; the printing of numbers is the host's.
\<close>

datatype piece = Txt string | Stringify json | ToStr json

type_synonym source = "piece list"

fun source_join :: "string \<Rightarrow> source list \<Rightarrow> source" where
  "source_join sep [] = []"
| "source_join sep [x] = x"
| "source_join sep (x # y # ys) = x @ [Txt sep] @ source_join sep (y # ys)"

text \<open>A text is the empty string when it has no piece other than empty literal text.\<close>

fun is_empty_piece :: "piece \<Rightarrow> bool" where
  "is_empty_piece (Txt s) = (s = [])"
| "is_empty_piece (ToStr (JStr s)) = (s = [])"
| "is_empty_piece (ToStr (JArr [])) = True"
| "is_empty_piece p = False"

definition is_empty_source :: "source \<Rightarrow> bool" where
  "is_empty_source t = list_all is_empty_piece t"

text \<open>
  The typed tree.  A literal carries its value, type and key; a call carries the operator
  as written (\<open>expr[0]\<close>), the type copied from the operator's definition (\<open>undefined\<close>
  when the name resolves to something that is not a definition), its arguments and key.
\<close>

datatype expr =
    Literal json ty string
  | Call json "ty option" "expr list" string

fun is_literal :: "expr \<Rightarrow> bool" where
  "is_literal (Literal v t k) = True"
| "is_literal (Call n t as k) = False"

fun ekey :: "expr \<Rightarrow> string" where
  "ekey (Literal v t k) = k"
| "ekey (Call n t as k) = k"

fun etype_of :: "expr \<Rightarrow> ty option" where
  "etype_of (Literal v t k) = Some t"
| "etype_of (Call n t as k) = t"

record CompileError =
  error :: source
  key :: string

record CompiledExpression =
  js :: source
  type :: ty
  isFeatureConstant :: bool
  isZoomConstant :: bool
  expression :: expr

datatype compile_result = Success CompiledExpression | Errors "CompileError list"

text \<open>
  What a definition's \<open>compile\<close> callback returns: \<open>errors\<close>, or \<open>js\<close> with the two
  optional constancy flags.
\<close>

datatype callback_result =
    CallbackErrors "source list"
  | CallbackJs source "bool option" "bool option"

record Definition =
  dname :: string
  dtype :: ty
  dcompile :: "expr \<Rightarrow> CompiledExpression list \<Rightarrow> (source, callback_result) outcome"

text \<open>\<open>args[i].js\<close>: reading a field of a missing argument is a \<open>TypeError\<close>.\<close>

definition arg :: "CompiledExpression list \<Rightarrow> nat \<Rightarrow> (source, CompiledExpression) outcome" where
  "arg args i = (if i < length args then Ret (args ! i) else Throw TypeError)"

definition js_only :: "source \<Rightarrow> (source, callback_result) outcome" where
  "js_only t = Ret (CallbackJs t None None)"

definition toUpperCase :: "string \<Rightarrow> string" where
  "toUpperCase s =
     map (\<lambda>c. case map_of (zip ''abcdefghijklmnopqrstuvwxyz'' ''ABCDEFGHIJKLMNOPQRSTUVWXYZ'') c of
                Some u \<Rightarrow> u | None \<Rightarrow> c) s"

definition defineMathConstant :: "string \<Rightarrow> Definition" where
  "defineMathConstant nm =
     \<lparr> dname = nm, dtype = Lambda NumberType [],
       dcompile = (\<lambda>_ _. js_only [Txt (''Math.'' @ toUpperCase nm)]) \<rparr>"

definition defineMathFunction :: "string \<Rightarrow> nat \<Rightarrow> string option \<Rightarrow> Definition" where
  "defineMathFunction nm arity mathName =
     (let key = (case mathName of Some m \<Rightarrow> m | None \<Rightarrow> nm) in
      \<lparr> dname = nm, dtype = Lambda NumberType (replicate arity NumberType),
        dcompile = (\<lambda>_ args. js_only
           ([Txt (''Math.'' @ key @ ''('')] @ source_join '', '' (map js args) @ [Txt '')''])) \<rparr>)"

definition defineBinaryMathOp :: "string \<Rightarrow> bool \<Rightarrow> Definition" where
  "defineBinaryMathOp nm isAssociative =
     \<lparr> dname = nm,
       dtype = Lambda NumberType
                 (if isAssociative then [NArgs [NumberType]] else [NumberType, NumberType]),
       dcompile = (\<lambda>_ args. js_only (source_join nm (map js args))) \<rparr>"

definition defineComparisonOp :: "string \<Rightarrow> bool \<Rightarrow> Definition" where
  "defineComparisonOp nm isAssociative =
     (let op = (if nm = ''=='' then ''==='' else if nm = ''!='' then ''!=='' else nm) in
      \<lparr> dname = nm,
        dtype = Lambda BooleanType
                  (if isAssociative then [NArgs [Typename ''T'']]
                   else [Typename ''T'', Typename ''T'']),
        dcompile = (\<lambda>_ args.
           case arg args 0 of Throw x \<Rightarrow> Throw x | Ret a0 \<Rightarrow>
           case arg args 1 of Throw x \<Rightarrow> Throw x | Ret a1 \<Rightarrow>
             js_only (js a0 @ [Txt ('' '' @ op @ '' '')] @ js a1)) \<rparr>)"

definition defineBooleanOp :: "string \<Rightarrow> Definition" where
  "defineBooleanOp op =
     \<lparr> dname = op, dtype = Lambda BooleanType [NArgs [BooleanType]],
       dcompile = (\<lambda>_ args. js_only (source_join op (map js args))) \<rparr>"

definition fromContext ::
  "string \<Rightarrow> expr \<Rightarrow> CompiledExpression list \<Rightarrow> (source, callback_result) outcome" where
  "fromContext nm = (\<lambda>_ args.
     js_only ([Txt (''this.'' @ nm @ ''('')] @ source_join '', '' (map js args) @ [Txt '')'']))"

text \<open>A callback whose text wraps its first argument.\<close>

definition wrap0 ::
  "string \<Rightarrow> string \<Rightarrow> expr \<Rightarrow> CompiledExpression list \<Rightarrow> (source, callback_result) outcome" where
  "wrap0 before after = (\<lambda>_ args.
     case arg args 0 of Throw x \<Rightarrow> Throw x | Ret a0 \<Rightarrow> js_only ([Txt before] @ js a0 @ [Txt after]))"

definition wrap01 ::
  "string \<Rightarrow> string \<Rightarrow> string \<Rightarrow> expr \<Rightarrow> CompiledExpression list
   \<Rightarrow> (source, callback_result) outcome" where
  "wrap01 before between after = (\<lambda>_ args.
     case arg args 0 of Throw x \<Rightarrow> Throw x | Ret a0 \<Rightarrow>
     case arg args 1 of Throw x \<Rightarrow> Throw x | Ret a1 \<Rightarrow>
       js_only ([Txt before] @ js a0 @ [Txt between] @ js a1 @ [Txt after]))"

text \<open>
  The callback of \<open>case\<close>: pairs are spliced off the front while more than one argument
  is left; the assertion wants exactly one left over.
\<close>

fun case_pairs :: "CompiledExpression list \<Rightarrow> source list \<times> CompiledExpression list" where
  "case_pairs (c0 # c1 # rest) =
     (let (result, args) = case_pairs rest in ((js c0 @ [Txt '' ? ''] @ js c1) # result, args))"
| "case_pairs args = ([], args)"

definition case_compile ::
  "expr \<Rightarrow> CompiledExpression list \<Rightarrow> (source, callback_result) outcome" where
  "case_compile e args =
     (let (result, rest) = case_pairs args in
      case rest of
        [a] \<Rightarrow> js_only (source_join '':'' (result @ [js a]))
      | _ \<Rightarrow> Throw AssertionError)"

section \<open>The operator registry\<close>

text \<open>
  The callback of \<open>curve\<close>.  The loop over the stops reads the arguments from index 2 in
  pairs, as long as a whole pair is left.
\<close>

definition curve_error_literal :: string where
  "curve_error_literal = ''Input/output pairs for '' @ [CHR 0x22] @ ''curve'' @ [CHR 0x22] @
     '' expressions must be defined using literal numeric values (not computed expressions) for the input values.''"

definition curve_error_ascending :: string where
  "curve_error_ascending = ''Input/output pairs for '' @ [CHR 0x22] @ ''curve'' @ [CHR 0x22] @
     '' expressions must be arranged with input values in strictly ascending order.''"

definition curve_error_type :: "ty \<Rightarrow> string" where
  "curve_error_type t = ''Type '' @ type_name t @
     '' is not interpolatable, and thus cannot be used as a curve'' @ [CHR 0x27] @ ''s output type.''"

fun curve_stops ::
  "CompiledExpression list \<Rightarrow> real list \<Rightarrow> source list \<Rightarrow> source list + real list \<times> source list"
where
  "curve_stops (input # output # rest) stops outputs =
     (case expression input of
        Literal (JNum v) t k \<Rightarrow>
          if stops \<noteq> [] \<and> last stops \<ge> v then Inl [[Txt curve_error_ascending]]
          else curve_stops rest (stops @ [v]) (outputs @ [[Txt ''() => ''] @ js output])
      | _ \<Rightarrow> Inl [[Txt curve_error_literal]])"
| "curve_stops args stops outputs = Inr (stops, outputs)"

text \<open>The generated call of \<open>evaluateCurve\<close>; the template's line breaks and indentation are not kept.\<close>

definition curve_js ::
  "source \<Rightarrow> real list \<Rightarrow> source list \<Rightarrow> json \<Rightarrow> string \<Rightarrow> source" where
  "curve_js input stops outputs interpolationOptions resultType =
     [Txt ''(function () { var input = ''] @ input @
     [Txt ''; var stopInputs = ['']
       @ source_join '', '' (map (\<lambda>s. [ToStr (JNum s)]) stops) @
     [Txt '']; var stopOutputs = [''] @ source_join '', '' outputs @
     [Txt '']; return this.evaluateCurve(''] @ input @
     [Txt '', stopInputs, stopOutputs, '', Stringify interpolationOptions, Txt '', '',
      Stringify (JStr resultType), Txt ''); }.bind(this))()'']"

definition curve_compile ::
  "expr \<Rightarrow> CompiledExpression list \<Rightarrow> (source, callback_result) outcome" where
  "curve_compile e args =
     (case arg args 0 of Throw x \<Rightarrow> Throw x | Ret a0 \<Rightarrow>
      case expression a0 of
        Literal v t k \<Rightarrow> Throw (Error [Txt ''Invalid interpolation type''])
      | Call interpolation_name interpolation_type interpolation_arguments k \<Rightarrow>
      case arg args 3 of Throw x \<Rightarrow> Throw x | Ret a3 \<Rightarrow>
      case (if type a3 = NumberType then Some ''number''
            else if type a3 = ColorType then Some ''color'' else None) of
        None \<Rightarrow> Ret (CallbackErrors [[Txt (curve_error_type (type a3))]])
      | Some resultType \<Rightarrow>
      case curve_stops (drop 2 args) [] [] of
        Inl errors \<Rightarrow> Ret (CallbackErrors errors)
      | Inr (stops, outputs) \<Rightarrow>
      if length stops = 1 then js_only (outputs ! 0)
      else case arg args 1 of Throw x \<Rightarrow> Throw x | Ret a1 \<Rightarrow>
        if interpolation_name = JStr ''exponential'' then
          (case interpolation_arguments of
             [] \<Rightarrow> Throw TypeError
           | Literal (JNum b) t k # rest \<Rightarrow>
               js_only (curve_js (js a1) stops outputs
                 (JObj [(''name'', interpolation_name), (''base'', JNum b)]) resultType)
           | baseExpr # rest \<Rightarrow>
               Ret (CallbackErrors
                 [[Txt ''Exponential interpolation base must be a literal number value.'']]))
        else js_only (curve_js (js a1) stops outputs
               (JObj [(''name'', interpolation_name)]) resultType))"

definition expressions :: "(string \<times> Definition) list" where
  "expressions =
   [(''ln2'', defineMathConstant ''ln2''),
    (''pi'', defineMathConstant ''pi''),
    (''e'', defineMathConstant ''e''),
    (''string'', \<lparr> dname = ''string'', dtype = Lambda StringType [ValueType],
        dcompile = wrap0 ''String('' '')'' \<rparr>),
    (''number'', \<lparr> dname = ''string'', dtype = Lambda NumberType [ValueType],
        dcompile = wrap0 ''Number('' '')'' \<rparr>),
    (''boolean'', \<lparr> dname = ''boolean'', dtype = Lambda BooleanType [ValueType],
        dcompile = wrap0 ''Boolean('' '')'' \<rparr>),
    (''json_array'', \<lparr> dname = ''json_array'', dtype = Lambda (Vector ValueType) [ValueType],
        dcompile = fromContext ''asArray'' \<rparr>),
    (''object'', \<lparr> dname = ''object'', dtype = Lambda ObjectType [ValueType],
        dcompile = fromContext ''asObject'' \<rparr>),
    (''color'', \<lparr> dname = ''color'', dtype = Lambda ColorType [StringType],
        dcompile = fromContext ''color'' \<rparr>),
    (''color_to_array'', \<lparr> dname = ''color_to_array'',
        dtype = Lambda (Array NumberType 4) [ColorType],
        dcompile = wrap0 [] ''.value'' \<rparr>),
    (''get'', \<lparr> dname = ''get'', dtype = Lambda ValueType [ObjectType, StringType],
        dcompile = fromContext ''get'' \<rparr>),
    (''has'', \<lparr> dname = ''has'', dtype = Lambda BooleanType [ObjectType, StringType],
        dcompile = wrap01 [] ''.hasOwnProperty('' '')'' \<rparr>),
    (''at'', \<lparr> dname = ''at'',
        dtype = Lambda (Typename ''T'')
                  [Variant [Vector (Typename ''T''), AnyArray (Typename ''T'')], NumberType],
        dcompile = wrap01 [] ''['' '']'' \<rparr>),
    (''typeof'', \<lparr> dname = ''typeof'', dtype = Lambda StringType [ValueType],
        dcompile = fromContext ''typeOf'' \<rparr>),
    (''length'', \<lparr> dname = ''length'',
        dtype = Lambda NumberType [Variant [Vector (Typename ''T''), StringType]],
        dcompile = wrap0 [] ''.length'' \<rparr>),
    (''properties'', \<lparr> dname = ''properties'', dtype = Lambda ObjectType [],
        dcompile = (\<lambda>_ _. Ret (CallbackJs [Txt ''this.asObject(props)''] (Some False) None)) \<rparr>),
    (''geometry_type'', \<lparr> dname = ''geometry_type'', dtype = Lambda StringType [],
        dcompile = (\<lambda>_ _. Ret (CallbackJs [Txt ''(feature.geometry || {}).type || null'']
                                 (Some False) None)) \<rparr>),
    (''id'', \<lparr> dname = ''id'', dtype = Lambda ValueType [],
        dcompile = (\<lambda>_ _. Ret (CallbackJs
           [Txt (''typeof feature.id === '' @ [CHR 0x22] @ ''undefined'' @ [CHR 0x22] @
                 '' ? null : feature.id'')] (Some False) None)) \<rparr>),
    (''zoom'', \<lparr> dname = ''zoom'', dtype = Lambda NumberType [],
        dcompile = (\<lambda>_ _. Ret (CallbackJs [Txt ''mapProperties.zoom''] None (Some False))) \<rparr>),
    (''+'', defineBinaryMathOp ''+'' False),
    (''*'', defineBinaryMathOp ''*'' False),
    (''-'', defineBinaryMathOp ''-'' False),
    (''/'', defineBinaryMathOp ''/'' False),
    (''%'', defineBinaryMathOp ''%'' False),
    (''^'', \<lparr> dname = ''^'', dtype = Lambda NumberType [NumberType, NumberType],
        dcompile = wrap01 ''Math.pow('' '', '' '')'' \<rparr>),
    (''log10'', defineMathFunction ''log10'' 1 None),
    (''ln'', defineMathFunction ''ln'' 1 (Some ''log'')),
    (''log2'', defineMathFunction ''log2'' 1 None),
    (''sin'', defineMathFunction ''sin'' 1 None),
    (''cos'', defineMathFunction ''cos'' 1 None),
    (''tan'', defineMathFunction ''tan'' 1 None),
    (''asin'', defineMathFunction ''asin'' 1 None),
    (''acos'', defineMathFunction ''acos'' 1 None),
    (''atan'', defineMathFunction ''atan'' 1 None),
    (''=='', defineComparisonOp ''=='' False),
    (''!='', defineComparisonOp ''!='' False),
    (''>'', defineComparisonOp ''>'' False),
    (''<'', defineComparisonOp ''<'' False),
    (''>='', defineComparisonOp ''>='' False),
    (''<='', defineComparisonOp ''<='' False),
    (''&&'', defineBooleanOp ''&&''),
    (''||'', defineBooleanOp ''||''),
    (''!'', \<lparr> dname = ''!'', dtype = Lambda BooleanType [BooleanType],
        dcompile = wrap0 ''!('' '')'' \<rparr>),
    (''upcase'', \<lparr> dname = ''upcase'', dtype = Lambda StringType [StringType],
        dcompile = wrap0 ''('' '').toUpperCase()'' \<rparr>),
    (''downcase'', \<lparr> dname = ''downcase'', dtype = Lambda StringType [StringType],
        dcompile = wrap0 ''('' '').toLowerCase()'' \<rparr>),
    (''concat'', \<lparr> dname = ''concat'', dtype = Lambda StringType [NArgs [ValueType]],
        dcompile = (\<lambda>_ args. js_only
           ([Txt ''[''] @ source_join '', '' (map js args) @
            [Txt (''].join('' @ [CHR 0x27, CHR 0x27] @ '')'')])) \<rparr>),
    (''rgb'', \<lparr> dname = ''rgb'', dtype = Lambda ColorType [NumberType, NumberType, NumberType],
        dcompile = fromContext ''rgba'' \<rparr>),
    (''rgba'', \<lparr> dname = ''rgb'',
        dtype = Lambda ColorType [NumberType, NumberType, NumberType, NumberType],
        dcompile = fromContext ''rgba'' \<rparr>),
    (''case'', \<lparr> dname = ''case'',
        dtype = Lambda (Typename ''T'') [NArgs [BooleanType, Typename ''T''], Typename ''T''],
        dcompile = case_compile \<rparr>),
    (''curve'', \<lparr> dname = ''curve'',
        dtype = Lambda (Typename ''T'')
                  [InterpolationType, NumberType, NArgs [NumberType, Typename ''T'']],
        dcompile = curve_compile \<rparr>),
    (''step'', \<lparr> dname = ''step'', dtype = Lambda InterpolationType [],
        dcompile = (\<lambda>_ _. js_only [Txt ''void 0'']) \<rparr>),
    (''exponential'', \<lparr> dname = ''exponential'', dtype = Lambda InterpolationType [NumberType],
        dcompile = (\<lambda>_ _. js_only [Txt ''void 0'']) \<rparr>),
    (''linear'', \<lparr> dname = ''step'', dtype = Lambda InterpolationType [],
        dcompile = (\<lambda>_ _. js_only [Txt ''void 0'']) \<rparr>)]"

text \<open>
  \<open>expressions[op]\<close> is a property read on an object: a name that is not a key of the
  registry still finds what \<open>Object.prototype\<close> holds under it, which is truthy and has no
  \<open>type\<close> and no \<open>compile\<close>.
\<close>

definition Object_prototype_names :: "string list" where
  "Object_prototype_names =
     [''constructor'', ''hasOwnProperty'', ''isPrototypeOf'', ''propertyIsEnumerable'',
      ''toLocaleString'', ''toString'', ''valueOf'', ''__proto__'', ''__defineGetter__'',
      ''__defineSetter__'', ''__lookupGetter__'', ''__lookupSetter__'']"

datatype registry_entry = Found Definition | Inherited | Absent

text \<open>
  The property key an operator position gives: a string is itself, an array of one
  element is that element's string.  Every other value converts to a string that is no
  key of the registry or of \<open>Object.prototype\<close> (it is empty, has a comma, or is the
  printed form of a number, boolean, \<open>null\<close>, \<open>undefined\<close> or an object).
\<close>

fun op_name :: "json \<Rightarrow> string option" where
  "op_name (JStr s) = Some s"
| "op_name (JArr [x]) = op_name x"
| "op_name v = None"

definition lookup_expression :: "json \<Rightarrow> registry_entry" where
  "lookup_expression op =
     (case op_name op of
        None \<Rightarrow> Absent
      | Some s \<Rightarrow>
          (case map_of expressions s of
             Some d \<Rightarrow> Found d
           | None \<Rightarrow> if List.member Object_prototype_names s then Inherited else Absent))"

section \<open>The parser\<close>

text \<open>
  \<open>parseExpression\<close> throws on a value that is neither a literal nor an array (its
  \<open>typeof\<close> is then \<open>object\<close>) and on an operator the registry does not know.
\<close>

fun parseExpression :: "string \<Rightarrow> json \<Rightarrow> (source, expr) outcome"
  and parse_arguments :: "string \<Rightarrow> nat \<Rightarrow> json list \<Rightarrow> (source, expr list) outcome"
where
  "parseExpression k JUndefined = Ret (Literal JNull NullType k)"
| "parseExpression k (JStr s) = Ret (Literal (JStr s) StringType k)"
| "parseExpression k (JNum n) = Ret (Literal (JNum n) NumberType k)"
| "parseExpression k (JBool b) = Ret (Literal (JBool b) BooleanType k)"
| "parseExpression k JNull =
     Throw (Error [Txt (k @ '': expected an array, but found object instead.'')])"
| "parseExpression k (JObj kvs) =
     Throw (Error [Txt (k @ '': expected an array, but found object instead.'')])"
| "parseExpression k (JArr []) =
     (case lookup_expression JUndefined of
        Absent \<Rightarrow> Throw (Error [Txt (k @ '': unknown function ''), ToStr JUndefined])
      | Inherited \<Rightarrow> Ret (Call JUndefined None [] k)
      | Found definition \<Rightarrow> Ret (Call JUndefined (Some (dtype definition)) [] k))"
| "parseExpression k (JArr (op # rest)) =
     (case lookup_expression op of
        Absent \<Rightarrow> Throw (Error [Txt (k @ '': unknown function ''), ToStr op])
      | Inherited \<Rightarrow>
          (case parse_arguments k 0 rest of
             Throw x \<Rightarrow> Throw x
           | Ret args \<Rightarrow> Ret (Call op None args k))
      | Found definition \<Rightarrow>
          (case parse_arguments k 0 rest of
             Throw x \<Rightarrow> Throw x
           | Ret args \<Rightarrow> Ret (Call op (Some (dtype definition)) args k)))"
| "parse_arguments k i [] = Ret []"
| "parse_arguments k i (a # rest) =
     (case parseExpression (k @ ''.'' @ decimal (i + 1)) a of
        Throw x \<Rightarrow> Throw x
      | Ret e \<Rightarrow>
          (case parse_arguments k (i + 1) rest of
             Throw x \<Rightarrow> Throw x
           | Ret es \<Rightarrow> Ret (e # es)))"

section \<open>The type checker\<close>

fun serializeExpression :: "expr \<Rightarrow> json" where
  "serializeExpression (Literal v t k) = v"
| "serializeExpression (Call n t args k) = JArr (n # map serializeExpression args)"

text \<open>\<open>stringifyExpression(e)\<close> is the piece \<open>Stringify (serializeExpression e)\<close>.\<close>

definition unresolved_message :: "ty \<Rightarrow> expr \<Rightarrow> source" where
  "unresolved_message expectedResult e =
     [Txt (''Could not resolve '' @ type_name expectedResult @
           ''.  This expression must be wrapped in a type conversion, e.g. ['' @
           [CHR 0x22] @ ''string'' @ [CHR 0x22] @ '', ''),
      Stringify (serializeExpression e), Txt ''].'']"

definition arity_message :: "nat \<Rightarrow> nat \<Rightarrow> source" where
  "arity_message expanded found =
     [Txt (''Expected '' @ decimal expanded @ '' arguments, but found '' @ decimal found @
           '' instead.'')]"

text \<open>An exception of \<open>matchTypeError\<close>, whose message is a plain string, passed on.\<close>

fun as_source :: "string jserror \<Rightarrow> source jserror" where
  "as_source (Error m) = Error [Txt m]"
| "as_source (Thrown_RuntimeError r) = Thrown_RuntimeError r"
| "as_source TypeError = TypeError"
| "as_source AssertionError = AssertionError"
| "as_source SyntaxError = SyntaxError"
| "as_source RangeError = RangeError"

text \<open>
  The inner \<open>while\<close> loop that unrolls one \<open>NArgs\<close>: argument types are consumed while they
  match the type at \<open>j\<close>; each time \<open>j\<close> wraps to 0 the type list is appended to the
  expanded types and the names bound during the round are written to the map.  The
  loop returns \<open>vi\<close> and \<open>j\<close>; the caller rewinds \<open>vi\<close> by \<open>j\<close>.
\<close>

function nargs_loop ::
  "ty list \<Rightarrow> ty option list \<Rightarrow> nat \<Rightarrow> nat \<Rightarrow> typenames \<Rightarrow> ty list \<Rightarrow> typenames
   \<Rightarrow> (source, nat \<times> nat \<times> ty list \<times> typenames) outcome" where
  "nargs_loop types argTypes vi j curTypeNames expandedArgTypes typenameMap =
     (if vi < length argTypes then
        (if \<not> j < length types then Throw TypeError
         else case argTypes ! vi of
           None \<Rightarrow> Throw TypeError
         | Some t \<Rightarrow>
            (case matchTypeError (types ! j) t (Some curTypeNames) of
               Throw x \<Rightarrow> Throw (as_source x)
             | Ret (Some err, cur) \<Rightarrow> Ret (vi, j, expandedArgTypes, typenameMap)
             | Ret (None, cur) \<Rightarrow>
                 (let cur' = (case cur of Some c \<Rightarrow> c | None \<Rightarrow> curTypeNames);
                      j' = (j + 1) mod length types
                  in if j' = 0
                     then nargs_loop types argTypes (vi + 1) 0 Map.empty
                            (expandedArgTypes @ types) (util_extend typenameMap cur')
                     else nargs_loop types argTypes (vi + 1) j' cur'
                            expandedArgTypes typenameMap)))
      else Ret (vi, j, expandedArgTypes, typenameMap))"
  by pat_completeness auto
termination
  by (relation "measure (\<lambda>(types, argTypes, vi, j, cur, ex, tm). length argTypes - vi)") auto

declare nargs_loop.simps [simp del]

text \<open>
  The outer loop over the expected argument types, from position \<open>ti\<close> on (the list is
  what is left of \<open>expectedArgs\<close>); it stops when the argument values or the expected
  types run out.  \<open>k\<close> is the key of the node being checked: every error of this loop is
  filed under it.
\<close>

fun unroll ::
  "ty list \<Rightarrow> ty option list \<Rightarrow> string \<Rightarrow> nat \<Rightarrow> ty list \<Rightarrow> CompileError list \<Rightarrow> typenames
   \<Rightarrow> (source, ty list \<times> CompileError list \<times> typenames) outcome" where
  "unroll [] argTypes k vi expandedArgTypes errors typenameMap =
     Ret (expandedArgTypes, errors, typenameMap)"
| "unroll (t # ts) argTypes k vi expandedArgTypes errors typenameMap =
     (if \<not> vi < length argTypes then Ret (expandedArgTypes, errors, typenameMap)
      else case t of
        NArgs types \<Rightarrow>
          (case nargs_loop types argTypes vi 0 Map.empty expandedArgTypes typenameMap of
             Throw x \<Rightarrow> Throw x
           | Ret (vi', j, expandedArgTypes', typenameMap') \<Rightarrow>
               unroll ts argTypes k (vi' - j) expandedArgTypes' errors typenameMap')
      | _ \<Rightarrow>
          (case argTypes ! vi of
             None \<Rightarrow> Throw TypeError
           | Some actual \<Rightarrow>
              (case matchTypeError t actual (Some typenameMap) of
                 Throw x \<Rightarrow> Throw (as_source x)
               | Ret (err, tm) \<Rightarrow>
                   unroll ts argTypes k (vi + 1) (expandedArgTypes @ [t])
                     (errors @ (case err of
                                  Some msg \<Rightarrow> [\<lparr> error = [Txt msg], key = k \<rparr>]
                                | None \<Rightarrow> []))
                     (case tm of Some m \<Rightarrow> m | None \<Rightarrow> typenameMap))))"

datatype typecheck_result = TypeErrors "CompileError list" | Checked expr

text \<open>
  \<open>typeCheckExpression\<close> on a call, up to its early return: the expected result and
  argument types, the test for an unresolved result, the match of the declared result,
  the unrolling of the arguments and the count of the arguments.  It yields the errors,
  or the expected result, the type names bound so far and the expanded argument types.
\<close>

definition expectedResult_of :: "ty \<Rightarrow> ty" where
  "expectedResult_of expected = (case expected of Lambda r as \<Rightarrow> r | _ \<Rightarrow> expected)"

definition expectedArgs_of :: "ty \<Rightarrow> ty option \<Rightarrow> (source, ty list option) outcome" where
  "expectedArgs_of expected etype =
     (case expected of
        Lambda r as \<Rightarrow> Ret (Some as)
      | _ \<Rightarrow> (case etype of
                 None \<Rightarrow> Throw TypeError
               | Some (Lambda r as) \<Rightarrow> Ret (Some as)
               | Some other \<Rightarrow> Ret None))"

definition declared_result :: "ty option \<Rightarrow> (source, ty) outcome" where
  "declared_result etype =
     (case etype of Some (Lambda result declared) \<Rightarrow> Ret result | _ \<Rightarrow> Throw TypeError)"

definition count_arguments ::
  "string \<Rightarrow> ty list \<Rightarrow> expr list \<Rightarrow> CompileError list \<Rightarrow> CompileError list" where
  "count_arguments k expandedArgTypes argValues errors =
     errors @
     (if length expandedArgTypes \<noteq> length argValues
      then [\<lparr> error = arity_message (length expandedArgTypes) (length argValues), key = k \<rparr>]
      else [])"

definition check_signature ::
  "ty \<Rightarrow> json \<Rightarrow> ty option \<Rightarrow> expr list \<Rightarrow> string
   \<Rightarrow> (source, CompileError list + ty \<times> typenames \<times> ty list) outcome" where
  "check_signature expected n etype args k =
     (let expectedResult = expectedResult_of expected in
      case expectedArgs_of expected etype of
        Throw x \<Rightarrow> Throw x
      | Ret expectedArgs \<Rightarrow>
      if kind expectedResult = ''typename''
      then Ret (Inl [\<lparr> error = unresolved_message expectedResult (Call n etype args k),
                         key = k \<rparr>])
      else case declared_result etype of
        Throw x \<Rightarrow> Throw x
      | Ret result \<Rightarrow>
      case matchTypeError expectedResult result (Some Map.empty) of
        Throw x \<Rightarrow> Throw (as_source x)
      | Ret (Some err, tm) \<Rightarrow> Ret (Inl [\<lparr> error = [Txt err], key = k \<rparr>])
      | Ret (None, tm) \<Rightarrow>
      case expectedArgs of
        None \<Rightarrow> Throw TypeError
      | Some expectedArgs' \<Rightarrow>
      case unroll expectedArgs' (map etype_of args) k 0 [] []
             (case tm of Some m \<Rightarrow> m | None \<Rightarrow> Map.empty) of
        Throw x \<Rightarrow> Throw x
      | Ret (expandedArgTypes, errors0, typenameMap) \<Rightarrow>
          (let errors = count_arguments k expandedArgTypes args errors0
           in if errors \<noteq> [] then Ret (Inl errors)
              else Ret (Inr (expectedResult, typenameMap, expandedArgTypes))))"

text \<open>The expected type of an argument: a type name that is bound is replaced by its binding.\<close>

definition resolve :: "typenames \<Rightarrow> ty \<Rightarrow> ty" where
  "resolve typenameMap t =
     (case t of
        Typename tn \<Rightarrow> (case typenameMap tn of Some b \<Rightarrow> b | None \<Rightarrow> t)
      | _ \<Rightarrow> t)"

text \<open>
  \<open>typeCheckExpression\<close>, with its second loop, which resolves type names and checks the
  arguments against the expanded types, as \<open>check_arguments\<close>.  An exception of a
  recursive call ends the check; an argument that is missing where a type is left
  would be a \<open>TypeError\<close> (the two lists have the same length when the loop is reached).
\<close>

fun typeCheckExpression :: "ty \<Rightarrow> expr \<Rightarrow> (source, typecheck_result) outcome"
  and check_arguments ::
    "typenames \<Rightarrow> ty list \<Rightarrow> expr list \<Rightarrow> CompileError list \<Rightarrow> ty list \<Rightarrow> expr list
     \<Rightarrow> (source, CompileError list \<times> ty list \<times> expr list) outcome"
where
  "typeCheckExpression expected (Literal v t k) =
     (case matchTypeError expected t None of
        Throw x \<Rightarrow> Throw (as_source x)
      | Ret (Some err, tm) \<Rightarrow> Ret (TypeErrors [\<lparr> error = [Txt err], key = k \<rparr>])
      | Ret (None, tm) \<Rightarrow> Ret (Checked (Literal v t k)))"
| "typeCheckExpression expected (Call n etype args k) =
     (case check_signature expected n etype args k of
        Throw x \<Rightarrow> Throw x
      | Ret (Inl errors) \<Rightarrow> Ret (TypeErrors errors)
      | Ret (Inr (expectedResult, typenameMap, expandedArgTypes)) \<Rightarrow>
          (case check_arguments typenameMap expandedArgTypes args [] [] [] of
             Throw x \<Rightarrow> Throw x
           | Ret (errors, resolvedArgTypes, checkedArgs) \<Rightarrow>
               if errors \<noteq> [] then Ret (TypeErrors errors)
               else Ret (Checked (Call n (Some (Lambda expectedResult resolvedArgTypes))
                                    checkedArgs k))))"
| "check_arguments typenameMap [] args errors resolvedArgTypes checkedArgs =
     Ret (errors, resolvedArgTypes, checkedArgs)"
| "check_arguments typenameMap (t # ts) [] errors resolvedArgTypes checkedArgs = Throw TypeError"
| "check_arguments typenameMap (t # ts) (a # args) errors resolvedArgTypes checkedArgs =
     (case typeCheckExpression (resolve typenameMap t) a of
        Throw x \<Rightarrow> Throw x
      | Ret (TypeErrors errs) \<Rightarrow>
          check_arguments typenameMap ts args (errors @ errs) resolvedArgTypes checkedArgs
      | Ret (Checked result) \<Rightarrow>
          if errors = []
          then check_arguments typenameMap ts args errors
                 (resolvedArgTypes @ [resolve typenameMap t]) (checkedArgs @ [result])
          else check_arguments typenameMap ts args errors resolvedArgTypes checkedArgs)"

section \<open>The compiler driver\<close>

text \<open>
  The checker returns a tree of the same shape as the one it was given: the same
  operators, literals and keys, with other types on the calls.  \<open>nodes\<close> counts the nodes
  of a tree; the recursion of \<open>compile\<close>, which descends into the arguments of the
  checked tree, is bounded by it.
\<close>

fun erase :: "expr \<Rightarrow> expr" where
  "erase (Literal v t k) = Literal v t k"
| "erase (Call n t args k) = Call n None (map erase args) k"

fun nodes :: "expr \<Rightarrow> nat" where
  "nodes (Literal v t k) = 1"
| "nodes (Call n t args k) = Suc (sum_list (map nodes args))"

lemma nodes_erase: "nodes (erase e) = nodes e"
  by (induction e rule: nodes.induct) (simp_all add: comp_def cong: map_cong)

lemma check_signature_Inr:
  assumes "check_signature expected n etype args k = Ret (Inr (r, tm, ex))"
  shows "length ex = length args \<and> r = expectedResult_of expected \<and> kind r \<noteq> ''typename''"
  using assms unfolding check_signature_def Let_def count_arguments_def
  by (auto split: outcome.splits option.splits prod.splits if_splits)

lemma check_signature_Inl:
  assumes "check_signature expected n etype args k = Ret (Inl errors)"
  shows "errors \<noteq> []"
  using assms unfolding check_signature_def Let_def
  by (auto split: outcome.splits option.splits prod.splits if_splits)

lemma typeCheck_erase_aux:
  "(typeCheckExpression expected e = Ret (Checked e') \<longrightarrow> erase e' = erase e) \<and>
   (typeCheckExpression expected e = Ret (TypeErrors errs) \<longrightarrow> errs \<noteq> [])"
  "check_arguments tm ts args errors resolved checked = Ret ([], resolved', checked') \<Longrightarrow>
      errors = [] \<and> length ts \<le> length args \<and>
      map erase checked' = map erase checked @ map erase (take (length ts) args) \<and>
      length resolved' = length resolved + length ts"
proof (induction expected e and tm ts args errors resolved checked
       arbitrary: e' errs and resolved' checked'
       rule: typeCheckExpression_check_arguments.induct)
  case (1 expected v t k)
  then show ?case by (auto split: outcome.splits option.splits prod.splits)
next
  case (2 expected n etype args k)
  show ?case
  proof (intro conjI impI)
    assume prem: "typeCheckExpression expected (Call n etype args k) = Ret (Checked e')"
    from prem obtain r tm ex where sig: "check_signature expected n etype args k = Ret (Inr (r, tm, ex))"
      by (auto split: outcome.splits sum.splits)
    from prem sig obtain res chk where
      chk: "check_arguments tm ex args [] [] [] = Ret ([], res, chk)"
      and e': "e' = Call n (Some (Lambda r res)) chk k"
      by (auto split: outcome.splits if_splits)
    have len: "length ex = length args" using check_signature_Inr[OF sig] by simp
    from "2.IH"[OF sig refl refl refl chk] len have "map erase chk = map erase args" by simp
    then show "erase e' = erase (Call n etype args k)" using e' by simp
  next
    assume prem: "typeCheckExpression expected (Call n etype args k) = Ret (TypeErrors errs)"
    then show "errs \<noteq> []"
      by (auto split: outcome.splits sum.splits if_splits dest: check_signature_Inl)
  qed
next
  case (3 tm args errors resolved checked)
  then show ?case by auto
next
  case (4 tm t ts errors resolved checked)
  then show ?case by auto
next
  case (5 tm t ts a args errors resolved checked)
  show ?case
  proof (cases "typeCheckExpression (resolve tm t) a")
    case (Throw x)
    then show ?thesis using "5.prems" by simp
  next
    case (Ret tr)
    show ?thesis
    proof (cases tr)
      case (TypeErrors errs)
      with Ret "5.prems" have
        "check_arguments tm ts args (errors @ errs) resolved checked = Ret ([], resolved', checked')"
        by simp
      from "5.IH"(2)[OF Ret TypeErrors this] have "errors @ errs = []" by simp
      then have e0: "errors = []" "errs = []" by simp_all
      have "errs \<noteq> []" using "5.IH"(1) Ret TypeErrors by blast
      then show ?thesis using e0 by simp
    next
      case (Checked result)
      have er: "erase result = erase a" using "5.IH"(1) Ret Checked by blast
      show ?thesis
      proof (cases "errors = []")
        case True
        with Ret Checked "5.prems" have rest:
          "check_arguments tm ts args errors (resolved @ [resolve tm t]) (checked @ [result])
             = Ret ([], resolved', checked')" by simp
        from "5.IH"(3)[OF Ret Checked True rest] er
        show ?thesis using True by simp
      next
        case False
        with Ret Checked "5.prems" have rest:
          "check_arguments tm ts args errors resolved checked = Ret ([], resolved', checked')"
          by simp
        from "5.IH"(4)[OF Ret Checked False rest] False show ?thesis by simp
      qed
    qed
  qed
qed

lemma typeCheck_erase:
  "typeCheckExpression expected e = Ret (Checked e') \<Longrightarrow> erase e' = erase e"
  using typeCheck_erase_aux(1) by blast

lemma typeCheck_nodes:
  "typeCheckExpression expected e = Ret (Checked e') \<Longrightarrow> nodes e' = nodes e"
  using typeCheck_erase[of expected e e'] nodes_erase[of e] nodes_erase[of e'] by simp

text \<open>
  \<open>compile\<close> after the arguments of a checked call have been compiled: the constancy
  flags of the arguments are conjoined, the definition's callback is run, its errors are
  filed under the key of the node, its flags are conjoined with those of the arguments,
  and the assertion wants a text that is not empty.
\<close>

definition finish_call ::
  "json \<Rightarrow> ty \<Rightarrow> expr \<Rightarrow> string \<Rightarrow> CompiledExpression list \<Rightarrow> (source, compile_result) outcome"
where
  "finish_call n result e k compiledArgs =
     (let isFeatureConstant0 = foldl (\<lambda>memo a. memo \<and> isFeatureConstant a) True compiledArgs;
          isZoomConstant0 = foldl (\<lambda>memo a. memo \<and> isZoomConstant a) True compiledArgs
      in case lookup_expression n of
           Found definition \<Rightarrow>
             (case dcompile definition e compiledArgs of
                Throw x \<Rightarrow> Throw x
              | Ret (CallbackErrors messages) \<Rightarrow>
                  Ret (Errors (map (\<lambda>m. \<lparr> error = m, key = k \<rparr>) messages))
              | Ret (CallbackJs body fc zc) \<Rightarrow>
                  if is_empty_source body then Throw AssertionError
                  else Ret (Success
                    \<lparr> js = [Txt ''(''] @ body @ [Txt '')''],
                      type = result,
                      isFeatureConstant =
                        (case fc of Some b \<Rightarrow> isFeatureConstant0 \<and> b | None \<Rightarrow> isFeatureConstant0),
                      isZoomConstant =
                        (case zc of Some b \<Rightarrow> isZoomConstant0 \<and> b | None \<Rightarrow> isZoomConstant0),
                      expression = e \<rparr>))
         | _ \<Rightarrow> Throw TypeError)"

text \<open>
  \<open>compile(expected, e)\<close>; \<open>expected || e.type\<close> is the expected type, and a call without
  a type makes the checker throw.  The loop over the arguments of the checked call is
  \<open>compile_arguments\<close>, which walks the argument types of the call's type alongside.  A
  checked call always carries a lambda type.
\<close>

function compile :: "ty option \<Rightarrow> expr \<Rightarrow> (source, compile_result) outcome"
  and compile_arguments ::
    "ty list \<Rightarrow> expr list \<Rightarrow> CompileError list \<Rightarrow> CompiledExpression list
     \<Rightarrow> (source, CompileError list \<times> CompiledExpression list) outcome"
where
  "compile expected e =
     (case (case expected of Some x \<Rightarrow> Some x | None \<Rightarrow> etype_of e) of
        None \<Rightarrow> Throw TypeError
      | Some expected' \<Rightarrow>
         (case typeCheckExpression expected' e of
            Throw x \<Rightarrow> Throw x
          | Ret (TypeErrors errors) \<Rightarrow> Ret (Errors errors)
          | Ret (Checked (Literal v t k)) \<Rightarrow>
              Ret (Success \<lparr> js = [Stringify v], type = t, isFeatureConstant = True,
                             isZoomConstant = True, expression = Literal v t k \<rparr>)
          | Ret (Checked (Call n (Some (Lambda result argTypes)) args k)) \<Rightarrow>
              (case compile_arguments argTypes args [] [] of
                 Throw x \<Rightarrow> Throw x
               | Ret (errors, compiledArgs) \<Rightarrow>
                   if errors \<noteq> [] then Ret (Errors errors)
                   else finish_call n result (Call n (Some (Lambda result argTypes)) args k) k
                          compiledArgs)
          | Ret (Checked (Call n other args k)) \<Rightarrow> Throw TypeError))"
| "compile_arguments argTypes [] errors compiledArgs = Ret (errors, compiledArgs)"
| "compile_arguments argTypes (a # args) errors compiledArgs =
     (case compile (case argTypes of [] \<Rightarrow> None | t # ts \<Rightarrow> Some t) a of
        Throw x \<Rightarrow> Throw x
      | Ret (Errors errs) \<Rightarrow> compile_arguments (tl argTypes) args (errors @ errs) compiledArgs
      | Ret (Success compiledArg) \<Rightarrow>
          compile_arguments (tl argTypes) args errors (compiledArgs @ [compiledArg]))"
  by pat_completeness auto

lemma typeCheck_nodes_args:
  "typeCheckExpression expected e = Ret (Checked (Call n t args k))
   \<Longrightarrow> sum_list (map nodes args) < nodes e"
  by (drule typeCheck_nodes) simp

lemma nodes_pos: "0 < nodes e"
  by (cases e) simp_all

termination compile
  apply (relation "measure (\<lambda>x. case x of
          Inl (expected, e) \<Rightarrow> 2 * nodes e
        | Inr (argTypes, args, errors, compiledArgs) \<Rightarrow> 2 * sum_list (map nodes args) + 1)")
  apply simp
  apply (clarsimp, drule typeCheck_nodes_args, simp)
  apply (simp_all add: nodes_pos)
  done

declare compile.simps [simp del]

text \<open>
  \<open>compileExpression\<close>.  Nothing is caught around the parser and the compiler; around
  \<open>new Function\<close> the exception is caught, logged and thrown again.  Whether the host
  accepts the generated text as the body of a function is a parameter: \<open>new Function\<close>
  throws a \<open>SyntaxError\<close> on text it cannot parse.  The text handed to it wraps the
  compiled \<open>js\<close>.
\<close>

definition function_body :: "source \<Rightarrow> source" where
  "function_body compiled_js =
     [Txt ''mapProperties = mapProperties || {}; feature = feature || {}; var props = feature.properties || {}; return (''] @
     compiled_js @ [Txt '')'']"

definition compileExpression ::
  "(source \<Rightarrow> bool) \<Rightarrow> json \<Rightarrow> (source, compile_result) outcome" where
  "compileExpression host_parses expr =
     (case parseExpression [] expr of
        Throw x \<Rightarrow> Throw x
      | Ret parsed \<Rightarrow>
         (case compile None parsed of
            Throw x \<Rightarrow> Throw x
          | Ret (Errors errors) \<Rightarrow> Ret (Errors errors)
          | Ret (Success compiled) \<Rightarrow>
              if host_parses (function_body (js compiled)) then Ret (Success compiled)
              else Throw SyntaxError))"

section \<open>Operators mentioned by a tree\<close>

text \<open>
  A tree mentions an operator when one of its calls names it.  The operators that read
  the feature and the operator that reads the zoom:
\<close>

definition feature_operators :: "string list" where
  "feature_operators = [''properties'', ''geometry_type'', ''id'']"

definition zoom_operators :: "string list" where
  "zoom_operators = [''zoom'']"

fun mentions :: "string list \<Rightarrow> expr \<Rightarrow> bool" where
  "mentions ops (Literal v t k) = False"
| "mentions ops (Call n t args k) =
     ((case op_name n of Some s \<Rightarrow> List.member ops s | None \<Rightarrow> False)
      \<or> list_ex (mentions ops) args)"

text \<open>
  The constancy flags a callback can report: a callback is plain when it reports none, and
  the flags of an operator are those its registry entry reports.  A callback that
  returns \<open>errors\<close> returns at least one.
\<close>

definition plain_callback ::
  "(expr \<Rightarrow> CompiledExpression list \<Rightarrow> (source, callback_result) outcome) \<Rightarrow> bool" where
  "plain_callback f =
     ((\<forall>e cs body fc zc. f e cs = Ret (CallbackJs body fc zc) \<longrightarrow> fc = None \<and> zc = None) \<and>
      (\<forall>e cs msgs. f e cs = Ret (CallbackErrors msgs) \<longrightarrow> msgs \<noteq> []))"

definition flags_of :: "string \<Rightarrow> bool option \<times> bool option" where
  "flags_of s =
     (if s = ''properties'' \<or> s = ''geometry_type'' \<or> s = ''id'' then (Some False, None)
      else if s = ''zoom'' then (None, Some False) else (None, None))"

definition callback_flags ::
  "string \<Rightarrow> (expr \<Rightarrow> CompiledExpression list \<Rightarrow> (source, callback_result) outcome) \<Rightarrow> bool" where
  "callback_flags s f =
     ((\<forall>e cs body fc zc. f e cs = Ret (CallbackJs body fc zc) \<longrightarrow> (fc, zc) = flags_of s) \<and>
      (\<forall>e cs msgs. f e cs = Ret (CallbackErrors msgs) \<longrightarrow> msgs \<noteq> []))"

text \<open>A host that accepts every generated function body.\<close>

definition accepting_host :: "source \<Rightarrow> bool" where
  "accepting_host body = True"

text \<open>The compiled form of \<open>["get", ["properties"], "missing"]\<close> and of its two arguments.\<close>

definition compiled_properties :: CompiledExpression where
  "compiled_properties =
     \<lparr> js = [Txt ''('', Txt ''this.asObject(props)'', Txt '')''], type = ObjectType,
       isFeatureConstant = False, isZoomConstant = True,
       expression = Call (JStr ''properties'') (Some (Lambda ObjectType [])) [] ''.1'' \<rparr>"

definition compiled_missing :: CompiledExpression where
  "compiled_missing =
     \<lparr> js = [Stringify (JStr ''missing'')], type = StringType,
       isFeatureConstant = True, isZoomConstant = True,
       expression = Literal (JStr ''missing'') StringType ''.2'' \<rparr>"

definition compiled_get :: CompiledExpression where
  "compiled_get =
     \<lparr> js = [Txt ''('', Txt ''this.get('', Txt ''('', Txt ''this.asObject(props)'', Txt '')'',
             Txt '', '', Stringify (JStr ''missing''), Txt '')'', Txt '')''],
       type = ValueType, isFeatureConstant = False, isZoomConstant = True,
       expression = Call (JStr ''get'') (Some (Lambda ValueType [ObjectType, StringType]))
         [Call (JStr ''properties'') (Some (Lambda ObjectType [])) [] ''.1'',
          Literal (JStr ''missing'') StringType ''.2''] [] \<rparr>"

text \<open>The compiled forms of \<open>["has", ["properties"], "toString"]\<close> and of the same with \<open>get\<close>.\<close>

definition compiled_has :: CompiledExpression where
  "compiled_has =
     \<lparr> js = [Txt ''('', Txt [], Txt ''('', Txt ''this.asObject(props)'', Txt '')'',
             Txt ''.hasOwnProperty('', Stringify (JStr ''toString''), Txt '')'', Txt '')''],
       type = BooleanType, isFeatureConstant = False, isZoomConstant = True,
       expression = Call (JStr ''has'') (Some (Lambda BooleanType [ObjectType, StringType]))
         [Call (JStr ''properties'') (Some (Lambda ObjectType [])) [] ''.1'',
          Literal (JStr ''toString'') StringType ''.2''] [] \<rparr>"

definition compiled_get_toString :: CompiledExpression where
  "compiled_get_toString =
     \<lparr> js = [Txt ''('', Txt ''this.get('', Txt ''('', Txt ''this.asObject(props)'', Txt '')'',
             Txt '', '', Stringify (JStr ''toString''), Txt '')'', Txt '')''],
       type = ValueType, isFeatureConstant = False, isZoomConstant = True,
       expression = Call (JStr ''get'') (Some (Lambda ValueType [ObjectType, StringType]))
         [Call (JStr ''properties'') (Some (Lambda ObjectType [])) [] ''.1'',
          Literal (JStr ''toString'') StringType ''.2''] [] \<rparr>"

text \<open>
  The compiled forms of \<open>["==", ["get", ["properties"], "x"], 1]\<close> and of
  \<open>["string", ["zoom"]]\<close>.
\<close>

definition compiled_eq :: CompiledExpression where
  "compiled_eq =
     \<lparr> js = [Txt ''('', Txt ''('', Txt ''this.get('', Txt ''('', Txt ''this.asObject(props)'',
             Txt '')'', Txt '', '', Stringify (JStr ''x''), Txt '')'', Txt '')'', Txt '' === '',
             Stringify (JNum 1), Txt '')''],
       type = BooleanType, isFeatureConstant = False, isZoomConstant = True,
       expression = Call (JStr ''=='') (Some (Lambda BooleanType [ValueType, ValueType]))
         [Call (JStr ''get'') (Some (Lambda ValueType [ObjectType, StringType]))
            [Call (JStr ''properties'') (Some (Lambda ObjectType [])) [] ''.1.1'',
             Literal (JStr ''x'') StringType ''.1.2''] ''.1'',
          Literal (JNum 1) NumberType ''.2''] [] \<rparr>"

definition compiled_string_zoom :: CompiledExpression where
  "compiled_string_zoom =
     \<lparr> js = [Txt ''('', Txt ''String('', Txt ''('', Txt ''mapProperties.zoom'', Txt '')'',
             Txt '')'', Txt '')''],
       type = StringType, isFeatureConstant = True, isZoomConstant = False,
       expression = Call (JStr ''string'') (Some (Lambda StringType [ValueType]))
         [Call (JStr ''zoom'') (Some (Lambda ValueType [])) [] ''.1''] [] \<rparr>"

section \<open>Type names in a checked tree\<close>

text \<open>A type name anywhere inside a type.\<close>

fun contains_typename :: "ty \<Rightarrow> bool" where
  "contains_typename (Typename n) = True"
| "contains_typename (Primitive n) = False"
| "contains_typename Value = False"
| "contains_typename (Vector t) = contains_typename t"
| "contains_typename (Array t n) = contains_typename t"
| "contains_typename (AnyArray t) = contains_typename t"
| "contains_typename (Variant ts) = list_ex contains_typename ts"
| "contains_typename (NArgs ts) = list_ex contains_typename ts"
| "contains_typename (Lambda r as) = (contains_typename r \<or> list_ex contains_typename as)"

text \<open>A type name anywhere in the type annotations of a tree.\<close>

fun annotated_typename :: "expr \<Rightarrow> bool" where
  "annotated_typename (Literal v t k) = contains_typename t"
| "annotated_typename (Call n t args k) =
     ((case t of Some t' \<Rightarrow> contains_typename t' | None \<Rightarrow> False)
      \<or> list_ex annotated_typename args)"

text \<open>
  Every literal of the tree has a primitive type; every call of the tree has a lambda
  type whose result and whose argument types are not themselves type names.
\<close>

fun literal_types_primitive :: "expr \<Rightarrow> bool" where
  "literal_types_primitive (Literal v t k) = (kind t = ''primitive'')"
| "literal_types_primitive (Call n t args k) = list_all literal_types_primitive args"

definition not_typename :: "ty \<Rightarrow> bool" where
  "not_typename t = (kind t \<noteq> ''typename'')"

fun call_types_resolved :: "expr \<Rightarrow> bool" where
  "call_types_resolved (Literal v t k) = True"
| "call_types_resolved (Call n t args k) =
     ((case t of
         Some (Lambda r as) \<Rightarrow> not_typename r \<and> list_all not_typename as
       | _ \<Rightarrow> False)
      \<and> list_all call_types_resolved args)"

text \<open>The compiled form of \<open>["length", "abc"]\<close>.\<close>

definition compiled_length :: CompiledExpression where
  "compiled_length =
     \<lparr> js = [Txt ''('', Txt [], Stringify (JStr ''abc''), Txt ''.length'', Txt '')''],
       type = NumberType, isFeatureConstant = True, isZoomConstant = True,
       expression = Call (JStr ''length'')
          (Some (Lambda NumberType [Variant [Vector (Typename ''T''), StringType]]))
          [Literal (JStr ''abc'') StringType ''.1''] [] \<rparr>"

section \<open>Example inputs\<close>

text \<open>
  The compiled form of \<open>["number", ["curve", ["linear"], ["zoom"], 0, 10]]\<close>, a curve with
  the single stop \<open>(0, 10)\<close>.
\<close>

definition single_stop_curve :: json where
  "single_stop_curve =
     JArr [JStr ''number'',
           JArr [JStr ''curve'', JArr [JStr ''linear''], JArr [JStr ''zoom''], JNum 0, JNum 10]]"

definition compiled_single_stop :: CompiledExpression where
  "compiled_single_stop =
     \<lparr> js = [Txt ''('', Txt ''Number('', Txt ''('', Txt ''() => '', Stringify (JNum 10),
             Txt '')'', Txt '')'', Txt '')''],
       type = NumberType, isFeatureConstant = True, isZoomConstant = False,
       expression =
         Call (JStr ''number'') (Some (Lambda NumberType [ValueType]))
           [Call (JStr ''curve'')
              (Some (Lambda ValueType [InterpolationType, NumberType, NumberType, NumberType]))
              [Call (JStr ''linear'') (Some (Lambda InterpolationType [])) [] ''.1.1'',
               Call (JStr ''zoom'') (Some (Lambda NumberType [])) [] ''.1.2'',
               Literal (JNum 0) NumberType ''.1.3'',
               Literal (JNum 10) NumberType ''.1.4'']
              ''.1'']
           [] \<rparr>"

text \<open>
  The compiled arguments of the curve in
  \<open>["string", ["curve", ["linear"], ["zoom"], 0, "a"]]\<close>, whose output type is String.
\<close>

definition string_curve_args :: "CompiledExpression list" where
  "string_curve_args =
     [\<lparr> js = [Txt ''('', Txt ''void 0'', Txt '')''], type = InterpolationType,
         isFeatureConstant = True, isZoomConstant = True,
         expression = Call (JStr ''linear'') (Some (Lambda InterpolationType [])) [] ''.1.1'' \<rparr>,
      \<lparr> js = [Txt ''('', Txt ''mapProperties.zoom'', Txt '')''], type = NumberType,
         isFeatureConstant = True, isZoomConstant = False,
         expression = Call (JStr ''zoom'') (Some (Lambda NumberType [])) [] ''.1.2'' \<rparr>,
      \<lparr> js = [Stringify (JNum 0)], type = NumberType,
         isFeatureConstant = True, isZoomConstant = True,
         expression = Literal (JNum 0) NumberType ''.1.3'' \<rparr>,
      \<lparr> js = [Stringify (JStr ''a'')], type = StringType,
         isFeatureConstant = True, isZoomConstant = True,
         expression = Literal (JStr ''a'') StringType ''.1.4'' \<rparr>]"


definition the_curve_definition :: Definition where
  "the_curve_definition =
     \<lparr> dname = ''curve'',
       dtype = Lambda (Typename ''T'')
                 [InterpolationType, NumberType, NArgs [NumberType, Typename ''T'']],
       dcompile = curve_compile \<rparr>"





section \<open>Failures at compile time\<close>










section \<open>The stop search\<close>

lemma asc_nth_less_iff:
  "sorted_wrt (<) (stops::real list) \<Longrightarrow> a < length stops \<Longrightarrow> b < length stops
   \<Longrightarrow> stops ! a \<le> x \<Longrightarrow> x < stops ! b \<Longrightarrow> a < b"
  by (metis leD le_less_trans less_imp_le not_less_iff_gr_or_eq sorted_wrt_nth_less)

text \<open>
  The invariant of the search when the input lies strictly inside the stops: the stop at
  \<open>lowerIndex\<close> is at most the input, and the input is below the stop just above
  \<open>upperIndex\<close>.  The loop then never runs out: it returns from inside.
\<close>

lemma findStop_loop_inside:
  "sorted_wrt (<) stops \<Longrightarrow> 0 \<le> lo \<Longrightarrow> lo < int (length stops) \<Longrightarrow> stops ! nat lo \<le> input
   \<Longrightarrow> - 1 \<le> hi \<Longrightarrow> hi \<le> int (length stops) - 1
   \<Longrightarrow> input < stops ! nat (min (hi + 1) (int (length stops) - 1))
   \<Longrightarrow> r = findStop_loop stops input lo hi cur
   \<Longrightarrow> 0 \<le> r \<and> r + 1 < int (length stops) \<and> stops ! nat r \<le> input \<and> input < stops ! nat (r + 1)"
proof (induction stops input lo hi cur arbitrary: r rule: findStop_loop.induct)
  case (1 stops input lo hi cur)
  let ?n = "int (length stops)"
  let ?m = "(lo + hi) div 2"
  let ?b = "min (hi + 1) (?n - 1)"
  note asc = "1.prems"(1)
  have b0: "0 \<le> ?b" "?b < ?n" using "1.prems" by auto
  have bn: "nat ?b < length stops" using b0 by linarith
  have "nat lo < nat ?b"
    by (rule asc_nth_less_iff[OF asc _ bn "1.prems"(4) "1.prems"(7)]) (use "1.prems" in linarith)
  then have lohi: "lo \<le> hi" using "1.prems" by auto
  have m: "lo \<le> ?m" "?m \<le> hi" using lohi by auto
  have mlen: "nat ?m < length stops" using m "1.prems" by auto
  have r: "r = (if input = stops ! nat ?m \<or> (input > stops ! nat ?m \<and> lt_undef input (nth_opt stops (?m + 1)))
            then ?m
            else if stops ! nat ?m < input
            then findStop_loop stops input (?m + 1) hi ?m
            else findStop_loop stops input lo (?m - 1) ?m)"
    using "1.prems"(8) lohi by (subst (asm) findStop_loop.simps) (simp add: Let_def)
  have below: "?m + 1 < ?n" if le: "stops ! nat ?m \<le> input"
  proof -
    have "nat ?m < nat ?b"
      by (rule asc_nth_less_iff[OF asc mlen bn le "1.prems"(7)])
    then show ?thesis using b0 by auto
  qed
  have step: "stops ! nat ?m < stops ! nat (?m + 1)" if "?m + 1 < ?n"
    using sorted_wrt_nth_less[OF asc, of "nat ?m" "nat (?m + 1)"] that m "1.prems" by auto
  consider (found_eq) "input = stops ! nat ?m"
    | (found_in) "stops ! nat ?m < input" "lt_undef input (nth_opt stops (?m + 1))"
    | (right) "stops ! nat ?m < input" "\<not> lt_undef input (nth_opt stops (?m + 1))"
    | (left) "input < stops ! nat ?m"
    by fastforce
  then show ?case
  proof cases
    case found_eq
    then have "r = ?m" using r by simp
    moreover have "?m + 1 < ?n" using below found_eq by simp
    ultimately show ?thesis using found_eq step m "1.prems"(2) by auto
  next
    case found_in
    then have rm: "r = ?m" using r by simp
    have "?m + 1 < ?n" using below found_in by simp
    then have "input < stops ! nat (?m + 1)"
      using found_in(2) m "1.prems"(2) by (simp add: lt_undef_def nth_opt_def)
    then show ?thesis using rm found_in(1) \<open>?m + 1 < ?n\<close> m "1.prems"(2) by auto
  next
    case right
    then have rr: "r = findStop_loop stops input (?m + 1) hi ?m" using r by auto
    have lt: "?m + 1 < ?n" using below right by simp
    then have le: "stops ! nat (?m + 1) \<le> input"
      using right(2) m "1.prems"(2) by (simp add: lt_undef_def nth_opt_def)
    show ?thesis
      by (rule "1.IH"(1)[OF lohi refl refl refl _ _ asc _ lt le "1.prems"(5,6,7) rr])
         (use right m "1.prems"(2) in auto)
  next
    case left
    then have rr: "r = findStop_loop stops input lo (?m - 1) ?m" using r by auto
    have b': "min (?m - 1 + 1) (?n - 1) = ?m" using mlen m "1.prems"(2) by auto
    show ?thesis
      by (rule "1.IH"(2)[OF lohi refl refl refl _ _ asc "1.prems"(2,3,4) _ _ _ rr])
         (use left m "1.prems" b' in auto)
  qed
qed

text \<open>Below every stop the search walks \<open>upperIndex\<close> down to \<open>-1\<close> and answers 0.\<close>

lemma findStop_loop_below:
  "\<forall>i < length stops. input < stops ! i \<Longrightarrow> lo = 0 \<Longrightarrow> - 1 \<le> hi \<Longrightarrow> hi < int (length stops) \<Longrightarrow> cur \<le> hi + 1
   \<Longrightarrow> findStop_loop stops input lo hi cur = 0"
proof (induction stops input lo hi cur rule: findStop_loop.induct)
  case (1 stops input lo hi cur)
  show ?case
  proof (cases "lo \<le> hi")
    case False
    then show ?thesis using "1.prems" by (subst findStop_loop.simps) auto
  next
    case True
    let ?m = "(lo + hi) div 2"
    have m: "0 \<le> ?m" "?m \<le> hi" using True "1.prems"(2) by auto
    have "nat ?m < length stops" using m "1.prems"(4) by linarith
    then have gt: "input < stops ! nat ?m" using "1.prems"(1) by blast
    then have ng: "\<not> (input = stops ! nat ?m \<or> stops ! nat ?m < input \<and> lt_undef input (nth_opt stops (?m + 1)))"
      "\<not> stops ! nat ?m < input" by auto
    have "findStop_loop stops input lo (?m - 1) ?m = 0"
      by (rule "1.IH"(2)[OF True refl refl refl ng "1.prems"(1,2)]) (use m "1.prems" in auto)
    then show ?thesis using ng True by (subst findStop_loop.simps) (simp add: Let_def)
  qed
qed

lemma findStop_inside:
  assumes "sorted_wrt (<) stops" "stops \<noteq> []" "hd stops < input" "input < last stops"
  shows "0 \<le> findStopLessThanOrEqualTo stops input \<and>
         findStopLessThanOrEqualTo stops input + 1 < int (length stops) \<and>
         stops ! nat (findStopLessThanOrEqualTo stops input) \<le> input \<and>
         input < stops ! nat (findStopLessThanOrEqualTo stops input + 1)"
  unfolding findStopLessThanOrEqualTo_def
  by (rule findStop_loop_inside[OF assms(1) _ _ _ _ _ _ refl])
     (use assms in \<open>auto simp: hd_conv_nth last_conv_nth nat_diff_distrib\<close>)

lemma findStop_below:
  assumes "sorted_wrt (<) stops" "stops \<noteq> []" "input < hd stops"
  shows "findStopLessThanOrEqualTo stops input = 0"
proof -
  have "input < stops ! i" if "i < length stops" for i
  proof (cases i)
    case 0
    then show ?thesis using assms by (simp add: hd_conv_nth)
  next
    case (Suc k)
    then have "stops ! 0 < stops ! i" using sorted_wrt_nth_less[OF assms(1), of 0 i] that by simp
    then show ?thesis using assms by (simp add: hd_conv_nth)
  qed
  then show ?thesis
    unfolding findStopLessThanOrEqualTo_def
    by (intro findStop_loop_below) auto
qed

text \<open>
  C7.  For strictly ascending stops and an input strictly between the first and the last
  stop, \<open>findStopLessThanOrEqualTo\<close> returns an index \<open>i\<close> inside the list such that the stop
  at \<open>i\<close> is at most the input and every stop that is at most the input has an index at
  most \<open>i\<close>: the index of the largest stop at or below the input.  A stop equal to the
  input is the one returned.  For an input below the first stop the answer is 0.
\<close>

theorem findStopLessThanOrEqualTo_largest:
  assumes "sorted_wrt (<) stops" and "stops \<noteq> []"
  shows "(hd stops < input \<and> input < last stops \<longrightarrow>
            (\<exists>i < length stops. findStopLessThanOrEqualTo stops input = int i \<and>
                 stops ! i \<le> input \<and>
                 (\<forall>j < length stops. stops ! j \<le> input \<longrightarrow> j \<le> i) \<and>
                 (\<forall>j < length stops. stops ! j = input \<longrightarrow> j = i)))
         \<and> (input < hd stops \<longrightarrow> findStopLessThanOrEqualTo stops input = 0)"
proof (intro conjI impI)
  assume inside: "hd stops < input \<and> input < last stops"
  let ?r = "findStopLessThanOrEqualTo stops input"
  from findStop_inside[OF assms] inside
  have r: "0 \<le> ?r" "?r + 1 < int (length stops)" "stops ! nat ?r \<le> input"
    "input < stops ! nat (?r + 1)" by auto
  let ?i = "nat ?r"
  have i: "?i < length stops" "Suc ?i < length stops" "?r = int ?i" using r by auto
  have up: "input < stops ! Suc ?i" using r by (simp add: nat_add_distrib)
  have largest: "j \<le> ?i" if "j < length stops" "stops ! j \<le> input" for j
  proof -
    have "j < Suc ?i" by (rule asc_nth_less_iff[OF assms(1) that(1) i(2) that(2) up])
    then show ?thesis by simp
  qed
  have exact: "j = ?i" if "j < length stops" "stops ! j = input" for j
  proof -
    have "j \<le> ?i" using largest that by simp
    moreover have "\<not> j < ?i"
      using sorted_wrt_nth_less[OF assms(1), of j ?i] i r that by auto
    ultimately show ?thesis by simp
  qed
  show "\<exists>i < length stops. ?r = int i \<and> stops ! i \<le> input \<and>
          (\<forall>j < length stops. stops ! j \<le> input \<longrightarrow> j \<le> i) \<and>
          (\<forall>j < length stops. stops ! j = input \<longrightarrow> j = i)"
    using i r largest exact by blast
next
  assume "input < hd stops"
  then show "findStopLessThanOrEqualTo stops input = 0"
    using findStop_below assms by blast
qed

theorem findStopLessThanOrEqualTo_largest_witness:
  "sorted_wrt (<) [0, 10, 20 :: real] \<and> [0, 10, 20 :: real] \<noteq> [] \<and>
   hd [0, 10, 20 :: real] < 15 \<and> (15 :: real) < last [0, 10, 20] \<and>
   (\<exists>i < length [0, 10, 20 :: real]. findStopLessThanOrEqualTo [0, 10, 20] 15 = int i \<and>
       [0, 10, 20 :: real] ! i \<le> 15 \<and>
       (\<forall>j < length [0, 10, 20 :: real]. [0, 10, 20 :: real] ! j \<le> 15 \<longrightarrow> j \<le> i) \<and>
       (\<forall>j < length [0, 10, 20 :: real]. [0, 10, 20 :: real] ! j = 15 \<longrightarrow> j = i)) \<and>
   (- 5 :: real) < hd [0, 10, 20] \<and> findStopLessThanOrEqualTo [0, 10, 20] (- 5) = 0"
proof -
  have h: "sorted_wrt (<) [0, 10, 20 :: real]" "[0, 10, 20 :: real] \<noteq> []" by simp_all
  show ?thesis
    using findStopLessThanOrEqualTo_largest[OF h, of 15]
      findStopLessThanOrEqualTo_largest[OF h, of "- 5"] h by simp
qed

section \<open>The interpolation factor\<close>

text \<open>
  C8.  Let the stops be strictly ascending, let \<open>(k\<^sub>i, k\<^sub>i\<^sub>+\<^sub>1)\<close> be the pair of
  neighbouring stops that brackets an input lying strictly inside the stops, and let the
  interpolation not be \<open>step\<close>.  The base \<open>b\<close> is the declared base of an exponential
  interpolation and 1 otherwise.  Then \<open>evaluateCurve\<close> interpolates the two bracketing
  outputs at the factor \<open>(input - k\<^sub>i) / (k\<^sub>i\<^sub>+\<^sub>1 - k\<^sub>i)\<close> when \<open>b = 1\<close> and at
  \<open>(b^(input - k\<^sub>i) - 1) / (b^(k\<^sub>i\<^sub>+\<^sub>1 - k\<^sub>i) - 1)\<close> otherwise, where the subtraction, the
  division and the power are those of the host's doubles.
\<close>

theorem evaluateCurve_factor:
  assumes asc: "sorted_wrt (<) stopInputs"
    and i: "Suc i < length stopInputs"
    and inside: "hd stopInputs < input" "input < last stopInputs"
    and bracket: "stopInputs ! i \<le> input" "input < stopInputs ! Suc i"
    and nostep: "interp_name interpolation \<noteq> ''step''"
    and base: "(if interp_name interpolation = ''exponential''
                then interp_base interpolation else Some 1) = Some b"
    and outs: "length stopOutputs = length stopInputs"
      "stopOutputs ! i = Ret lo" "stopOutputs ! Suc i = Ret hi"
  shows "evaluateCurve H input stopInputs stopOutputs interpolation ''number'' =
           Ret (interpolate_number H lo hi
             (if b = 1
              then number_divide H
                     (number_minus H (VNum input) (VNum (stopInputs ! i)))
                     (number_minus H (VNum (stopInputs ! Suc i)) (VNum (stopInputs ! i)))
              else number_divide H
                     (number_minus H
                        (Math_pow H (VNum b) (number_minus H (VNum input) (VNum (stopInputs ! i))))
                        (VNum 1))
                     (number_minus H
                        (Math_pow H (VNum b)
                           (number_minus H (VNum (stopInputs ! Suc i)) (VNum (stopInputs ! i))))
                        (VNum 1))))"
proof -
  have ne: "stopInputs \<noteq> []" using i by auto
  let ?r = "findStopLessThanOrEqualTo stopInputs input"
  from findStop_inside[OF asc ne inside]
  have r: "0 \<le> ?r" "?r + 1 < int (length stopInputs)" "stopInputs ! nat ?r \<le> input"
    "input < stopInputs ! nat (?r + 1)" by auto
  have up: "input < stopInputs ! Suc (nat ?r)" using r by (simp add: nat_add_distrib)
  have rl: "nat ?r < length stopInputs" "Suc (nat ?r) < length stopInputs" using r by auto
  have "i < Suc (nat ?r)"
    by (rule asc_nth_less_iff[OF asc _ rl(2) bracket(1) up]) (use i in simp)
  moreover have "nat ?r < Suc i"
    by (rule asc_nth_less_iff[OF asc rl(1) i r(3) bracket(2)])
  ultimately have "nat ?r = i" by simp
  then have idx: "findStopLessThanOrEqualTo stopInputs input = int i" using r(1) by simp
  have bs: "(if interp_name interpolation = ''exponential''
             then number_or_undefined (interp_base interpolation) else VNum 1) = VNum b"
    using base by (auto simp: number_or_undefined_def split: if_splits)
  have first: "\<not> le_undef input (nth_opt stopInputs 0)"
    using inside ne by (simp add: le_undef_def nth_opt_def hd_conv_nth)
  have lastn: "nth_opt stopInputs (int (length stopInputs) - 1) = Some (last stopInputs)"
  proof -
    have "nat (int (length stopInputs) - 1) = length stopInputs - 1" by simp
    then show ?thesis using ne by (simp add: nth_opt_def last_conv_nth del: of_nat_diff)
  qed
  have n1: "number_or_undefined (nth_opt stopInputs (int i)) = VNum (stopInputs ! i)"
    and n2: "number_or_undefined (nth_opt stopInputs (int i + 1)) = VNum (stopInputs ! Suc i)"
    using i by (simp_all add: nth_opt_def nat_add_distrib number_or_undefined_def)
  have o1: "call_output stopOutputs (int i) = Ret lo"
    and o2: "call_output stopOutputs (int i + 1) = Ret hi"
    using i outs by (simp_all add: call_output_def nth_opt_def nat_add_distrib)
  have "evaluateCurve H input stopInputs stopOutputs interpolation ''number'' =
        Ret (interpolate_number H lo hi
              (interpolationFactor H (VNum input) (VNum b)
                 (VNum (stopInputs ! i)) (VNum (stopInputs ! Suc i))))"
    unfolding evaluateCurve_def Let_def
    using first lastn inside(2) nostep bs idx n1 n2 o1 o2 by simp
  then show ?thesis by (simp add: interpolationFactor_def Let_def)
qed

text \<open>
  A host with exact arithmetic on the finite numbers, a zero denominator giving an
  infinity or \<open>NaN\<close>.  It is not the arithmetic of doubles, which rounds; the theorem
  holds for every host, and this one instantiates it.
\<close>

definition ideal_host :: host where
  "ideal_host = \<lparr>
     number_minus = (\<lambda>a b. case (a, b) of (VNum x, VNum y) \<Rightarrow> VNum (x - y) | _ \<Rightarrow> VNaN),
     number_divide = (\<lambda>a b. case (a, b) of
        (VNum x, VNum y) \<Rightarrow>
          if y \<noteq> 0 then VNum (x / y)
          else if x > 0 then VInfinity else if x < 0 then VNegInfinity else VNaN
      | _ \<Rightarrow> VNaN),
     Math_pow = (\<lambda>a b. case (a, b) of (VNum x, VNum y) \<Rightarrow> VNum (x powr y) | _ \<Rightarrow> VNaN),
     interpolate_number = (\<lambda>a b t. case (a, b, t) of
        (VNum x, VNum y, VNum r) \<Rightarrow> VNum (x * (1 - r) + y * r) | _ \<Rightarrow> VNaN),
     interpolate_color = (\<lambda>a b t. a) \<rparr>"

theorem evaluateCurve_factor_witness:
  "sorted_wrt (<) [0, 10 :: real] \<and> hd [0, 10 :: real] < 5 \<and> (5 :: real) < last [0, 10] \<and>
   [0, 10 :: real] ! 0 \<le> 5 \<and> (5 :: real) < [0, 10] ! Suc 0 \<and>
   evaluateCurve ideal_host 5 [0, 10] [Ret (VNum 0), Ret (VNum 100)]
      \<lparr> interp_name = ''exponential'', interp_base = Some 2 \<rparr> ''number'' =
     Ret (interpolate_number ideal_host (VNum 0) (VNum 100)
           (number_divide ideal_host
              (number_minus ideal_host
                 (Math_pow ideal_host (VNum 2) (number_minus ideal_host (VNum 5) (VNum 0)))
                 (VNum 1))
              (number_minus ideal_host
                 (Math_pow ideal_host (VNum 2) (number_minus ideal_host (VNum 10) (VNum 0)))
                 (VNum 1)))) \<and>
   evaluateCurve ideal_host 1 [0, 3] [Ret (VNum 0), Ret (VNum 100)]
      \<lparr> interp_name = ''linear'', interp_base = None \<rparr> ''number'' =
     Ret (interpolate_number ideal_host (VNum 0) (VNum 100)
           (number_divide ideal_host
              (number_minus ideal_host (VNum 1) (VNum 0))
              (number_minus ideal_host (VNum 3) (VNum 0))))"
  using evaluateCurve_factor[of "[0, 10]" 0 5
      "\<lparr> interp_name = ''exponential'', interp_base = Some 2 \<rparr>" 2
      "[Ret (VNum 0), Ret (VNum 100)]" "VNum 0" "VNum 100" ideal_host]
    evaluateCurve_factor[of "[0, 3]" 0 1
      "\<lparr> interp_name = ''linear'', interp_base = None \<rparr>" 1
      "[Ret (VNum 0), Ret (VNum 100)]" "VNum 0" "VNum 100" ideal_host]
  by simp

section \<open>Property access: \<open>get\<close> and \<open>has\<close>\<close>

lemma is_object_truthy: "is_object obj \<Longrightarrow> truthy obj"
  by (cases obj) simp_all

text \<open>
  C9.  \<open>get\<close> on an object that does not have the key, neither as an own property nor
  through its prototype chain, throws a \<open>RuntimeError\<close> whose name is
  \<open>ExpressionEvaluationError\<close> and whose message is
  \<open>Property <key> not found in object with keys: [<own enumerable keys>]\<close>.
\<close>

theorem get_missing_key:
  assumes "is_object obj" and "chain_lookup obj k = None"
  shows "get obj k = Throw (Thrown_RuntimeError
           \<lparr> name = ''ExpressionEvaluationError'',
             message = ''Property '' @ k @ '' not found in object with keys: ['' @
                       join '','' (Object_keys obj) @ '']'' \<rparr>)"
  using assms by (simp add: get_def is_object_truthy RuntimeError_new_def)

text \<open>
  The scenario of C9: the expression compiles to a call of \<open>get\<close> on
  \<open>asObject(props)\<close> and the literal key; the feature's properties are the empty object
  \<open>{}\<close>, which \<open>asObject\<close> lets through, and the key is \<open>missing\<close>.
\<close>

theorem get_missing_key_witness:
  "compileExpression accepting_host
      (JArr [JStr ''get'', JArr [JStr ''properties''], JStr ''missing'']) = Ret (Success compiled_get) \<and>
   js compiled_get =
     [Txt ''('', Txt ''this.get('', Txt ''('', Txt ''this.asObject(props)'', Txt '')'',
      Txt '', '', Stringify (JStr ''missing''), Txt '')'', Txt '')''] \<and>
   is_object (object_literal []) \<and> chain_lookup (object_literal []) ''missing'' = None \<and>
   asObject (object_literal []) = Ret (object_literal []) \<and>
   get (object_literal []) ''missing'' = Throw (Thrown_RuntimeError
     \<lparr> name = ''ExpressionEvaluationError'',
       message = ''Property missing not found in object with keys: []'' \<rparr>) \<and>
   toJSON \<lparr> name = ''ExpressionEvaluationError'',
       message = ''Property missing not found in object with keys: []'' \<rparr> =
     ''ExpressionEvaluationError: Property missing not found in object with keys: []''"
proof -
  have run: "compileExpression accepting_host
      (JArr [JStr ''get'', JArr [JStr ''properties''], JStr ''missing'']) = Ret (Success compiled_get)"
    by code_simp
  have body: "js compiled_get =
     [Txt ''('', Txt ''this.get('', Txt ''('', Txt ''this.asObject(props)'', Txt '')'',
      Txt '', '', Stringify (JStr ''missing''), Txt '')'', Txt '')'']"
    by (simp add: compiled_get_def)
  show ?thesis
    using get_missing_key[of "object_literal []" "''missing''"] run body
    by (simp add: object_literal_def Object_prototype_def asObject_def toJSON_def)
qed

text \<open>The compiled form of \<open>["has", ["properties"], "toString"]\<close>.\<close>

lemma compile_has_toString:
  "compileExpression accepting_host
      (JArr [JStr ''has'', JArr [JStr ''properties''], JStr ''toString'']) =
   Ret (Success compiled_has)"
  by code_simp

lemma compile_get_toString:
  "compileExpression accepting_host
      (JArr [JStr ''get'', JArr [JStr ''properties''], JStr ''toString'']) =
   Ret (Success compiled_get_toString)"
  by code_simp

text \<open>
  C10.  The registry entry of \<open>has\<close> compiles to the method call
  \<open>a.hasOwnProperty(k)\<close> on the texts of its two arguments, and the entry of \<open>get\<close> to the
  call \<open>this.get(a, k)\<close> of the evaluation context.  On an object that inherits the
  built-in \<open>hasOwnProperty\<close>, the method call answers whether the key is an own property;
  \<open>get\<close> on an object throws exactly when the key is found neither among the own
  properties nor along the prototype chain.  The two disagree on the empty object and
  the inherited key \<open>toString\<close>: \<open>has\<close> is false and \<open>get\<close> returns a value.
\<close>

theorem has_get_disagree:
  "(\<exists>d. lookup_expression (JStr ''has'') = Found d \<and>
        dtype d = Lambda BooleanType [ObjectType, StringType] \<and>
        dcompile d e [a0, a1] =
          Ret (CallbackJs ([Txt []] @ js a0 @ [Txt ''.hasOwnProperty(''] @ js a1 @ [Txt '')''])
                 None None))
   \<and> (\<exists>d. lookup_expression (JStr ''get'') = Found d \<and>
        dtype d = Lambda ValueType [ObjectType, StringType] \<and>
        dcompile d e [a0, a1] =
          Ret (CallbackJs ([Txt ''this.get(''] @ js a0 @ [Txt '', ''] @ js a1 @ [Txt '')''])
                 None None))
   \<and> has_body obj k = method_call obj ''hasOwnProperty'' [VStr k]
   \<and> (is_object obj \<and> chain_lookup obj ''hasOwnProperty'' =
        Some (VObject (BuiltinFn ''hasOwnProperty'') ps proto)
      \<longrightarrow> method_call obj ''hasOwnProperty'' [VStr k] = Some (Ret (VBool (hasOwn obj k))))
   \<and> (is_object obj \<longrightarrow> ((\<exists>x. get obj k = Throw x) \<longleftrightarrow> chain_lookup obj k = None))
   \<and> (hasOwn obj k \<longrightarrow> chain_lookup obj k \<noteq> None)
   \<and> (\<exists>obj' k' v. method_call obj' ''hasOwnProperty'' [VStr k'] = Some (Ret (VBool False)) \<and>
          get obj' k' = Ret v)"
proof (intro conjI impI)
  show "\<exists>d. lookup_expression (JStr ''has'') = Found d \<and>
        dtype d = Lambda BooleanType [ObjectType, StringType] \<and>
        dcompile d e [a0, a1] =
          Ret (CallbackJs ([Txt []] @ js a0 @ [Txt ''.hasOwnProperty(''] @ js a1 @ [Txt '')''])
                 None None)"
    by (simp add: lookup_expression_def expressions_def wrap01_def arg_def js_only_def)
next
  show "\<exists>d. lookup_expression (JStr ''get'') = Found d \<and>
        dtype d = Lambda ValueType [ObjectType, StringType] \<and>
        dcompile d e [a0, a1] =
          Ret (CallbackJs ([Txt ''this.get(''] @ js a0 @ [Txt '', ''] @ js a1 @ [Txt '')''])
                 None None)"
    by (simp add: lookup_expression_def expressions_def fromContext_def js_only_def)
next
  show "has_body obj k = method_call obj ''hasOwnProperty'' [VStr k]"
    by (simp add: has_body_def)
next
  assume "is_object obj \<and> chain_lookup obj ''hasOwnProperty'' =
        Some (VObject (BuiltinFn ''hasOwnProperty'') ps proto)"
  then show "method_call obj ''hasOwnProperty'' [VStr k] = Some (Ret (VBool (hasOwn obj k)))"
    by (cases obj) (auto simp: method_call_def call_builtin_def)
next
  assume "is_object obj"
  then show "(\<exists>x. get obj k = Throw x) \<longleftrightarrow> chain_lookup obj k = None"
    by (auto simp: get_def is_object_truthy split: option.splits)
next
  assume "hasOwn obj k"
  then show "chain_lookup obj k \<noteq> None"
    by (cases obj) (auto split: option.splits)
next
  have "method_call (object_literal []) ''hasOwnProperty'' [VStr ''toString'']
          = Some (Ret (VBool False))"
    by (simp add: method_call_def call_builtin_def object_literal_def Object_prototype_def)
  moreover have "get (object_literal []) ''toString'' = Ret (VObject (BuiltinFn ''toString'') [] VNull)"
    by (simp add: get_def object_literal_def Object_prototype_def)
  ultimately show "\<exists>obj' k' v. method_call obj' ''hasOwnProperty'' [VStr k'] = Some (Ret (VBool False)) \<and> get obj' k' = Ret v"
    by blast
qed

theorem has_get_disagree_witness:
  "compileExpression accepting_host
      (JArr [JStr ''has'', JArr [JStr ''properties''], JStr ''toString'']) =
     Ret (Success compiled_has) \<and>
   js compiled_has =
     [Txt ''('', Txt [], Txt ''('', Txt ''this.asObject(props)'', Txt '')'',
      Txt ''.hasOwnProperty('', Stringify (JStr ''toString''), Txt '')'', Txt '')''] \<and>
   compileExpression accepting_host
      (JArr [JStr ''get'', JArr [JStr ''properties''], JStr ''toString'']) =
     Ret (Success compiled_get_toString) \<and>
   js compiled_get_toString =
     [Txt ''('', Txt ''this.get('', Txt ''('', Txt ''this.asObject(props)'', Txt '')'',
      Txt '', '', Stringify (JStr ''toString''), Txt '')'', Txt '')''] \<and>
   asObject (object_literal []) = Ret (object_literal []) \<and>
   is_object (object_literal []) \<and>
   chain_lookup (object_literal []) ''hasOwnProperty'' =
     Some (VObject (BuiltinFn ''hasOwnProperty'') [] VNull) \<and>
   has_body (object_literal []) ''toString'' = Some (Ret (VBool False)) \<and>
   \<not> hasOwn (object_literal []) ''toString'' \<and>
   chain_lookup (object_literal []) ''toString'' \<noteq> None \<and>
   \<not> (\<exists>x. get (object_literal []) ''toString'' = Throw x) \<and>
   hasOwn (object_literal [(''a'', VNum 1)]) ''a'' \<and>
   chain_lookup (object_literal [(''a'', VNum 1)]) ''a'' \<noteq> None"
proof -
  have texts: "js compiled_has =
     [Txt ''('', Txt [], Txt ''('', Txt ''this.asObject(props)'', Txt '')'',
      Txt ''.hasOwnProperty('', Stringify (JStr ''toString''), Txt '')'', Txt '')'']"
    "js compiled_get_toString =
     [Txt ''('', Txt ''this.get('', Txt ''('', Txt ''this.asObject(props)'', Txt '')'',
      Txt '', '', Stringify (JStr ''toString''), Txt '')'', Txt '')'']"
    by (simp_all add: compiled_has_def compiled_get_toString_def)
  show ?thesis
    using has_get_disagree[of undefined undefined undefined "object_literal []" "''toString''" "[]" VNull]
      has_get_disagree[of undefined undefined undefined "object_literal [(''a'', VNum 1)]" "''a''" "[]" VNull]
      compile_has_toString compile_get_toString texts
    by (simp add: object_literal_def Object_prototype_def asObject_def)
qed

section \<open>Constancy flags\<close>

lemma plain_js_only: "plain_callback (\<lambda>e cs. js_only (g e cs))"
  by (simp add: plain_callback_def js_only_def)

lemma plain_wrap0: "plain_callback (wrap0 a b)"
  by (auto simp: plain_callback_def wrap0_def js_only_def split: outcome.splits)

lemma plain_wrap01: "plain_callback (wrap01 a b c)"
  by (auto simp: plain_callback_def wrap01_def js_only_def split: outcome.splits)

lemma plain_fromContext: "plain_callback (fromContext a)"
  by (auto simp: plain_callback_def fromContext_def js_only_def split: outcome.splits)

lemma plain_case: "plain_callback case_compile"
  by (auto simp: plain_callback_def case_compile_def js_only_def split: outcome.splits prod.splits list.splits)

lemma curve_stops_errors: "curve_stops args stops outputs = Inl errs \<Longrightarrow> errs \<noteq> []"
  by (induction args stops outputs rule: curve_stops.induct)
     (auto split: expr.splits json.splits if_splits)

lemma plain_curve: "plain_callback curve_compile"
  unfolding plain_callback_def curve_compile_def js_only_def
  by (auto split: outcome.splits prod.splits list.splits expr.splits option.splits sum.splits if_splits json.splits
           dest: curve_stops_errors)

lemma plain_defs:
  "plain_callback (dcompile (defineMathConstant a))"
  "plain_callback (dcompile (defineMathFunction a n m))"
  "plain_callback (dcompile (defineBinaryMathOp a b))"
  "plain_callback (dcompile (defineComparisonOp a b))"
  "plain_callback (dcompile (defineBooleanOp a))"
  by (auto simp: plain_callback_def defineMathConstant_def defineMathFunction_def
       defineBinaryMathOp_def defineComparisonOp_def defineBooleanOp_def js_only_def Let_def
       split: outcome.splits)


lemma plain_callback_flags:
  "plain_callback f \<Longrightarrow> flags_of s = (None, None) \<Longrightarrow> callback_flags s f"
  by (auto simp: plain_callback_def callback_flags_def)

lemma registry_flags_all: "list_all (\<lambda>(s, d). callback_flags s (dcompile d)) expressions"
  unfolding expressions_def
  apply (simp add: plain_callback_flags plain_defs plain_wrap0 plain_wrap01 plain_fromContext
        plain_case plain_curve plain_js_only flags_of_def)
  apply (simp add: callback_flags_def flags_of_def)
  done

lemma lookup_callback_flags:
  assumes "lookup_expression n = Found d"
  shows "\<exists>s. op_name n = Some s \<and> callback_flags s (dcompile d)"
proof -
  from assms(1) obtain s where s: "op_name n = Some s" "map_of expressions s = Some d"
    by (auto simp: lookup_expression_def split: option.splits if_splits)
  then have "(s, d) \<in> set expressions" by (simp add: map_of_SomeD)
  with registry_flags_all have "callback_flags s (dcompile d)"
    by (auto simp: list_all_iff)
  with s show ?thesis by blast
qed

lemma lookup_errors:
  assumes "lookup_expression n = Found d" "dcompile d e cs = Ret (CallbackErrors msgs)"
  shows "msgs \<noteq> []"
proof -
  from lookup_callback_flags[OF assms(1)] obtain s where "callback_flags s (dcompile d)" by blast
  then have "\<forall>e cs msgs. dcompile d e cs = Ret (CallbackErrors msgs) \<longrightarrow> msgs \<noteq> []"
    by (simp add: callback_flags_def)
  with assms(2) show ?thesis by blast
qed

lemma lookup_flags:
  assumes "lookup_expression n = Found d" "dcompile d e cs = Ret (CallbackJs body fc zc)"
  shows "\<exists>s. op_name n = Some s \<and> (fc, zc) = flags_of s"
proof -
  from assms(1) obtain s where s: "op_name n = Some s" "map_of expressions s = Some d"
    by (auto simp: lookup_expression_def split: option.splits if_splits)
  then have "(s, d) \<in> set expressions" by (simp add: map_of_SomeD)
  with registry_flags_all have "callback_flags s (dcompile d)"
    by (auto simp: list_all_iff)
  with assms(2) s show ?thesis by (auto simp: callback_flags_def)
qed

lemma mentions_erase: "mentions ops (erase e) = mentions ops e"
  by (induction ops e rule: mentions.induct) (simp_all add: list_ex_iff)

lemma foldl_and: "foldl (\<lambda>memo a. memo \<and> f a) b xs = (b \<and> list_all f xs)"
  by (induction xs arbitrary: b) auto

lemma finish_call_Success:
  assumes "finish_call n r e k cs = Ret (Success c)"
  shows "\<exists>d body fc zc. lookup_expression n = Found d \<and>
           dcompile d e cs = Ret (CallbackJs body fc zc) \<and>
           isFeatureConstant c = (list_all isFeatureConstant cs \<and> fc \<noteq> Some False) \<and>
           isZoomConstant c = (list_all isZoomConstant cs \<and> zc \<noteq> Some False) \<and>
           expression c = e \<and> type c = r"
  using assms unfolding finish_call_def Let_def foldl_and
  by (auto split: registry_entry.splits outcome.splits callback_result.splits if_splits option.splits)

lemma finish_call_Errors:
  assumes "finish_call n r e k cs = Ret (Errors errs)"
  shows "errs \<noteq> []"
  using assms unfolding finish_call_def Let_def
  by (auto split: registry_entry.splits outcome.splits callback_result.splits if_splits
           dest: lookup_errors)

text \<open>What a run of \<open>compile\<close> that returns went through.\<close>

lemma compile_Ret:
  assumes "compile expected e = Ret res"
  shows "\<exists>expected' tr. (case expected of Some x \<Rightarrow> Some x | None \<Rightarrow> etype_of e) = Some expected' \<and>
           typeCheckExpression expected' e = Ret tr \<and>
           (case tr of
              TypeErrors errors \<Rightarrow> res = Errors errors
            | Checked (Literal v t k) \<Rightarrow>
                res = Success \<lparr> js = [Stringify v], type = t, isFeatureConstant = True,
                                isZoomConstant = True, expression = Literal v t k \<rparr>
            | Checked (Call n et args k) \<Rightarrow>
                (\<exists>r as errors cs. et = Some (Lambda r as) \<and>
                   compile_arguments as args [] [] = Ret (errors, cs) \<and>
                   (if errors \<noteq> [] then res = Errors errors
                    else finish_call n r (Call n et args k) k cs = Ret res)))"
  using assms
  by (subst (asm) compile.simps)
     (auto split: option.splits outcome.splits typecheck_result.splits expr.splits ty.splits
        if_splits prod.splits)


lemma compile_flags_aux:
  "(compile expected e = Ret (Success c) \<longrightarrow>
     erase (expression c) = erase e \<and>
     isFeatureConstant c = (\<not> mentions feature_operators e) \<and>
     isZoomConstant c = (\<not> mentions zoom_operators e)) \<and>
   (compile expected e = Ret (Errors errs0) \<longrightarrow> errs0 \<noteq> [])"
  "compile_arguments ts args errs cs = Ret ([], cs') \<Longrightarrow>
     errs = [] \<and>
     list_all isFeatureConstant cs' =
       (list_all isFeatureConstant cs \<and> \<not> list_ex (mentions feature_operators) args) \<and>
     list_all isZoomConstant cs' =
       (list_all isZoomConstant cs \<and> \<not> list_ex (mentions zoom_operators) args)"
proof (induction expected e and ts args errs cs arbitrary: c errs0 and cs'
       rule: compile_compile_arguments.induct)
  case (1 expected e)
  have main: "(res = Success c \<longrightarrow>
                 erase (expression c) = erase e \<and>
                 isFeatureConstant c = (\<not> mentions feature_operators e) \<and>
                 isZoomConstant c = (\<not> mentions zoom_operators e)) \<and>
              (res = Errors errs0 \<longrightarrow> errs0 \<noteq> [])"
    if run: "compile expected e = Ret res" for res
  proof -
    from compile_Ret[OF run] obtain expected' tr where
      ex: "(case expected of Some x \<Rightarrow> Some x | None \<Rightarrow> etype_of e) = Some expected'"
      and tc: "typeCheckExpression expected' e = Ret tr"
      and rest: "(case tr of
              TypeErrors errors \<Rightarrow> res = Errors errors
            | Checked (Literal v t k) \<Rightarrow>
                res = Success \<lparr> js = [Stringify v], type = t, isFeatureConstant = True,
                                isZoomConstant = True, expression = Literal v t k \<rparr>
            | Checked (Call n et args k) \<Rightarrow>
                (\<exists>r as errors cs. et = Some (Lambda r as) \<and>
                   compile_arguments as args [] [] = Ret (errors, cs) \<and>
                   (if errors \<noteq> [] then res = Errors errors
                    else finish_call n r (Call n et args k) k cs = Ret res)))"
      by blast
    show ?thesis
    proof (cases tr)
      case (TypeErrors es)
      then have "es \<noteq> []" using typeCheck_erase_aux(1) tc by blast
      then show ?thesis using rest TypeErrors by auto
    next
      case (Checked e')
      have er: "erase e' = erase e" using typeCheck_erase tc Checked by blast
      have ment: "mentions ops e = mentions ops e'" for ops
        by (metis mentions_erase er)
      show ?thesis
      proof (cases e')
        case (Literal v t k)
        have r: "res = Success \<lparr> js = [Stringify v], type = t, isFeatureConstant = True,
                                isZoomConstant = True, expression = e' \<rparr>"
          using rest Checked Literal by simp
        have nm: "\<not> mentions ops e" for ops
          using ment[of ops] Literal by simp
        show ?thesis
        proof (rule conjI; rule impI)
          assume "res = Errors errs0"
          then show "errs0 \<noteq> []" using r by simp
        next
          assume "res = Success c"
          then have ceq: "c = \<lparr> js = [Stringify v], type = t, isFeatureConstant = True,
                                isZoomConstant = True, expression = e' \<rparr>"
            using r by simp
          have c: "expression c = e'" "isFeatureConstant c" "isZoomConstant c"
            by (simp_all add: ceq)
          have "erase (expression c) = erase e" using c(1) er by (simp only:)
          then show "erase (expression c) = erase e \<and>
                 isFeatureConstant c = (\<not> mentions feature_operators e) \<and>
                 isZoomConstant c = (\<not> mentions zoom_operators e)"
            using c(2,3) nm by blast
        qed
      next
        case (Call n et args k)
        with rest Checked obtain r as errors cs where
          et: "et = Some (Lambda r as)"
          and ca: "compile_arguments as args [] [] = Ret (errors, cs)"
          and fin: "if errors \<noteq> [] then res = Errors errors
                    else finish_call n r (Call n et args k) k cs = Ret res"
          by auto
        show ?thesis
        proof (cases "errors = []")
          case False
          then show ?thesis using fin by auto
        next
          case True
          then have fin': "finish_call n r e' k cs = Ret res" using fin Call by simp
          have ca': "compile_arguments as args [] [] = Ret ([], cs)" using ca True by simp
          from "1.IH"[OF ex tc Checked Call et refl ca']
          have args: "list_all isFeatureConstant cs = (\<not> list_ex (mentions feature_operators) args)"
            "list_all isZoomConstant cs = (\<not> list_ex (mentions zoom_operators) args)" by simp_all
          show ?thesis
          proof (rule conjI; rule impI)
            assume "res = Errors errs0"
            then show "errs0 \<noteq> []" using fin' finish_call_Errors by blast
          next
            assume rs: "res = Success c"
            from finish_call_Success[OF fin'[unfolded rs]] obtain d body fc zc where
              d: "lookup_expression n = Found d" "dcompile d e' cs = Ret (CallbackJs body fc zc)"
              and c: "isFeatureConstant c = (list_all isFeatureConstant cs \<and> fc \<noteq> Some False)"
                 "isZoomConstant c = (list_all isZoomConstant cs \<and> zc \<noteq> Some False)"
                 "expression c = e'" by blast
            from lookup_flags[OF d] obtain s where s: "op_name n = Some s" "(fc, zc) = flags_of s"
              by blast
            have f: "(fc \<noteq> Some False) = (\<not> List.member feature_operators s)"
              "(zc \<noteq> Some False) = (\<not> List.member zoom_operators s)"
              using s(2) by (auto simp: flags_of_def feature_operators_def zoom_operators_def
                                  split: if_splits)
            have "isFeatureConstant c = (\<not> mentions feature_operators e')"
              "isZoomConstant c = (\<not> mentions zoom_operators e')"
              using c args f s(1) Call by auto
            then show "erase (expression c) = erase e \<and>
                 isFeatureConstant c = (\<not> mentions feature_operators e) \<and>
                 isZoomConstant c = (\<not> mentions zoom_operators e)"
              using c(3) er ment by simp
          qed
        qed
      qed
    qed
  qed
  show ?case using main by blast
next
  case (2 argTypes errors compiledArgs)
  then show ?case by simp
next
  case (3 argTypes a args errors compiledArgs)
  let ?t = "case argTypes of [] \<Rightarrow> None | t # ts \<Rightarrow> Some t"
  show ?case
  proof (cases "compile ?t a")
    case (Throw x)
    then show ?thesis using "3.prems" by simp
  next
    case (Ret res)
    show ?thesis
    proof (cases res)
      case (Errors errs)
      with Ret "3.prems" have rest:
        "compile_arguments (tl argTypes) args (errors @ errs) compiledArgs = Ret ([], cs')" by simp
      from "3.IH"(3)[OF Ret Errors rest] have "errors @ errs = []" by simp
      moreover have "errs \<noteq> []" using "3.IH"(1) Ret Errors by blast
      ultimately show ?thesis by simp
    next
      case (Success ca)
      with Ret "3.prems" have rest:
        "compile_arguments (tl argTypes) args errors (compiledArgs @ [ca]) = Ret ([], cs')" by simp
      have "isFeatureConstant ca = (\<not> mentions feature_operators a)"
        "isZoomConstant ca = (\<not> mentions zoom_operators a)"
        using "3.IH"(1) Ret Success by blast+
      with "3.IH"(2)[OF Ret Success rest]
      show ?thesis by auto
    qed
  qed
qed

text \<open>
  C4.  When \<open>compileExpression\<close> succeeds, \<open>isFeatureConstant\<close> is false exactly when the
  typed tree of the result mentions \<open>properties\<close>, \<open>geometry_type\<close> or \<open>id\<close>, and
  \<open>isZoomConstant\<close> is false exactly when it mentions \<open>zoom\<close>.  At every call the flag is
  the conjunction of the flags of the compiled arguments and of the flag the operator's
  callback reports, if it reports one.
\<close>

theorem constancy_flags:
  "(compileExpression host_parses expr = Ret (Success c) \<longrightarrow>
      isFeatureConstant c = (\<not> mentions feature_operators (expression c)) \<and>
      isZoomConstant c = (\<not> mentions zoom_operators (expression c)))
   \<and> (finish_call n r e k cs = Ret (Success c') \<longrightarrow>
        (\<exists>d body fc zc. lookup_expression n = Found d \<and>
           dcompile d e cs = Ret (CallbackJs body fc zc) \<and>
           isFeatureConstant c' = (list_all isFeatureConstant cs \<and> fc \<noteq> Some False) \<and>
           isZoomConstant c' = (list_all isZoomConstant cs \<and> zc \<noteq> Some False)))"
proof (rule conjI; rule impI)
  assume run: "compileExpression host_parses expr = Ret (Success c)"
  then obtain parsed where p: "parseExpression [] expr = Ret parsed"
    and c: "compile None parsed = Ret (Success c)"
    by (auto simp: compileExpression_def split: outcome.splits compile_result.splits if_splits)
  from compile_flags_aux(1)[of None parsed c] c
  have f: "erase (expression c) = erase parsed"
    "isFeatureConstant c = (\<not> mentions feature_operators parsed)"
    "isZoomConstant c = (\<not> mentions zoom_operators parsed)" by blast+
  have "mentions ops (expression c) = mentions ops parsed" for ops
    by (metis mentions_erase f(1))
  then show "isFeatureConstant c = (\<not> mentions feature_operators (expression c)) \<and>
      isZoomConstant c = (\<not> mentions zoom_operators (expression c))"
    using f(2,3) by simp
next
  assume "finish_call n r e k cs = Ret (Success c')"
  from finish_call_Success[OF this]
  show "\<exists>d body fc zc. lookup_expression n = Found d \<and>
           dcompile d e cs = Ret (CallbackJs body fc zc) \<and>
           isFeatureConstant c' = (list_all isFeatureConstant cs \<and> fc \<noteq> Some False) \<and>
           isZoomConstant c' = (list_all isZoomConstant cs \<and> zc \<noteq> Some False)"
    by blast
qed

lemma compile_get_missing:
  "compileExpression accepting_host (JArr [JStr ''get'', JArr [JStr ''properties''], JStr ''missing''])
     = Ret (Success compiled_get)"
  by code_simp

lemma finish_get_missing:
  "finish_call (JStr ''get'') ValueType (expression compiled_get) []
     [compiled_properties, compiled_missing] = Ret (Success compiled_get)"
  by code_simp

lemma compile_eq_get:
  "compileExpression accepting_host
      (JArr [JStr ''=='', JArr [JStr ''get'', JArr [JStr ''properties''], JStr ''x''], JNum 1])
     = Ret (Success compiled_eq)"
  by code_simp

lemma compile_string_zoom:
  "compileExpression accepting_host (JArr [JStr ''string'', JArr [JStr ''zoom'']])
     = Ret (Success compiled_string_zoom)"
  by code_simp

theorem constancy_flags_witness:
  "compileExpression accepting_host
      (JArr [JStr ''=='', JArr [JStr ''get'', JArr [JStr ''properties''], JStr ''x''], JNum 1])
     = Ret (Success compiled_eq)
   \<and> \<not> isFeatureConstant compiled_eq
   \<and> mentions feature_operators (expression compiled_eq)
   \<and> isZoomConstant compiled_eq
   \<and> \<not> mentions zoom_operators (expression compiled_eq)
   \<and> compileExpression accepting_host (JArr [JStr ''string'', JArr [JStr ''zoom'']])
     = Ret (Success compiled_string_zoom)
   \<and> isFeatureConstant compiled_string_zoom
   \<and> \<not> mentions feature_operators (expression compiled_string_zoom)
   \<and> \<not> isZoomConstant compiled_string_zoom
   \<and> mentions zoom_operators (expression compiled_string_zoom)
   \<and> compileExpression accepting_host
      (JArr [JStr ''get'', JArr [JStr ''properties''], JStr ''missing'']) = Ret (Success compiled_get)
   \<and> \<not> isFeatureConstant compiled_get
   \<and> mentions feature_operators (expression compiled_get)
   \<and> isZoomConstant compiled_get
   \<and> \<not> mentions zoom_operators (expression compiled_get)
   \<and> finish_call (JStr ''get'') ValueType (expression compiled_get) []
        [compiled_properties, compiled_missing] = Ret (Success compiled_get)
   \<and> isFeatureConstant compiled_get =
        (list_all isFeatureConstant [compiled_properties, compiled_missing] \<and> True)"
proof -
  note t = constancy_flags[of accepting_host
      "JArr [JStr ''get'', JArr [JStr ''properties''], JStr ''missing'']" compiled_get
      "JStr ''get''" ValueType "expression compiled_get" "[]"
      "[compiled_properties, compiled_missing]" compiled_get]
  note t2 = constancy_flags[of accepting_host
      "JArr [JStr ''=='', JArr [JStr ''get'', JArr [JStr ''properties''], JStr ''x''], JNum 1]"
      compiled_eq "JStr ''get''" ValueType "expression compiled_get" "[]"
      "[compiled_properties, compiled_missing]" compiled_get]
  note t3 = constancy_flags[of accepting_host
      "JArr [JStr ''string'', JArr [JStr ''zoom'']]"
      compiled_string_zoom "JStr ''get''" ValueType "expression compiled_get" "[]"
      "[compiled_properties, compiled_missing]" compiled_get]
  from t compile_get_missing have a:
    "isFeatureConstant compiled_get = (\<not> mentions feature_operators (expression compiled_get))"
    "isZoomConstant compiled_get = (\<not> mentions zoom_operators (expression compiled_get))"
    by blast+
  from t2 compile_eq_get have a2:
    "isFeatureConstant compiled_eq = (\<not> mentions feature_operators (expression compiled_eq))"
    "isZoomConstant compiled_eq = (\<not> mentions zoom_operators (expression compiled_eq))"
    by blast+
  from t3 compile_string_zoom have a3:
    "isFeatureConstant compiled_string_zoom =
       (\<not> mentions feature_operators (expression compiled_string_zoom))"
    "isZoomConstant compiled_string_zoom =
       (\<not> mentions zoom_operators (expression compiled_string_zoom))"
    by blast+
  have b: "\<not> isFeatureConstant compiled_get" "isZoomConstant compiled_get"
    "\<not> isFeatureConstant compiled_properties"
    "\<not> isFeatureConstant compiled_eq" "isZoomConstant compiled_eq"
    "isFeatureConstant compiled_string_zoom" "\<not> isZoomConstant compiled_string_zoom"
    by (simp_all add: compiled_get_def compiled_properties_def compiled_eq_def
        compiled_string_zoom_def)
  show ?thesis
    using a a2 a3 b compile_get_missing finish_get_missing compile_eq_get compile_string_zoom
    by simp
qed

section \<open>Generic resolution\<close>

lemma parse_literals:
  "parseExpression k j = Ret e \<Longrightarrow> literal_types_primitive e"
  "parse_arguments k i jsons = Ret es \<Longrightarrow> list_all literal_types_primitive es"
proof (induction k j and k i jsons arbitrary: e and es rule: parseExpression_parse_arguments.induct)
  case (7 k)
  then show ?case by (auto split: registry_entry.splits)
next
  case (8 k op rest)
  then show ?case by (auto split: registry_entry.splits outcome.splits)
next
  case (10 k i a rest)
  then show ?case by (auto split: outcome.splits)
qed (auto simp: primitive_defs)

lemma literal_types_erase: "literal_types_primitive (erase e) = literal_types_primitive e"
  by (induction e rule: literal_types_primitive.induct) (simp_all add: list_all_iff)

lemma typeCheck_typename_fails:
  assumes "kind expected = ''typename''"
  shows "typeCheckExpression expected a \<noteq> Ret (Checked a')"
proof -
  from assms obtain tn where ex: "expected = Typename tn" by (cases expected) auto
  show ?thesis
  proof (cases a)
    case (Literal v t k)
    have "matchTypeError (Typename tn) t None =
            Throw (Error (type_name (Typename tn) @ '' is not a valid output type.''))"
      unfolding matchTypeError_def by (subst match_rec.simps) simp
    then show ?thesis using Literal ex by simp
  next
    case (Call n et args k)
    have "\<exists>r. check_signature (Typename tn) n et args k = r \<and> (\<forall>x. r \<noteq> Ret (Inr x))"
      by (auto simp: check_signature_def Let_def expectedResult_of_def split: outcome.splits)
    then show ?thesis using Call ex by (auto split: outcome.splits sum.splits)
  qed
qed

lemma typeCheck_resolved_aux:
  "typeCheckExpression expected e = Ret (Checked e') \<Longrightarrow> call_types_resolved e'"
  "check_arguments tm ts args errors resolved checked = Ret ([], resolved', checked') \<Longrightarrow>
     list_all not_typename resolved \<Longrightarrow> list_all call_types_resolved checked \<Longrightarrow>
     list_all not_typename resolved' \<and> list_all call_types_resolved checked'"
proof (induction expected e and tm ts args errors resolved checked
       arbitrary: e' and resolved' checked'
       rule: typeCheckExpression_check_arguments.induct)
  case (1 expected v t k)
  then show ?case by (auto split: outcome.splits option.splits prod.splits)
next
  case (2 expected n etype args k)
  from "2.prems" obtain r tm ex where
    sig: "check_signature expected n etype args k = Ret (Inr (r, tm, ex))"
    by (auto split: outcome.splits sum.splits)
  from "2.prems" sig obtain res chk where
    chk: "check_arguments tm ex args [] [] [] = Ret ([], res, chk)"
    and e': "e' = Call n (Some (Lambda r res)) chk k"
    by (auto split: outcome.splits if_splits)
  have r: "not_typename r" using check_signature_Inr[OF sig] unfolding not_typename_def by blast
  from "2.IH"[OF sig refl refl refl chk]
  have "list_all not_typename res \<and> list_all call_types_resolved chk" by simp
  then show ?case using e' r by simp
next
  case (3 tm args errors resolved checked)
  then show ?case by auto
next
  case (4 tm t ts errors resolved checked)
  then show ?case by auto
next
  case (5 tm t ts a args errors resolved checked)
  show ?case
  proof (cases "typeCheckExpression (resolve tm t) a")
    case (Throw x)
    then show ?thesis using "5.prems" by simp
  next
    case (Ret tr)
    show ?thesis
    proof (cases tr)
      case (TypeErrors errs)
      with Ret "5.prems" have
        "check_arguments tm ts args (errors @ errs) resolved checked = Ret ([], resolved', checked')"
        by simp
      from "5.IH"(2)[OF Ret TypeErrors this "5.prems"(2,3)] show ?thesis .
    next
      case (Checked result)
      have nt: "not_typename (resolve tm t)"
        using typeCheck_typename_fails[of "resolve tm t" a result] Ret Checked
        by (auto simp: not_typename_def)
      have cr: "call_types_resolved result" using "5.IH"(1)[OF Ret[unfolded Checked]] .
      show ?thesis
      proof (cases "errors = []")
        case True
        with Ret Checked "5.prems" have rest:
          "check_arguments tm ts args errors (resolved @ [resolve tm t]) (checked @ [result])
             = Ret ([], resolved', checked')" by simp
        show ?thesis
          by (rule "5.IH"(3)[OF Ret Checked True rest]) (use "5.prems"(2,3) nt cr in simp_all)
      next
        case False
        with Ret Checked "5.prems" have rest:
          "check_arguments tm ts args errors resolved checked = Ret ([], resolved', checked')"
          by simp
        from "5.IH"(4)[OF Ret Checked False rest "5.prems"(2,3)] show ?thesis .
      qed
    qed
  qed
qed


lemma compile_expression_checked:
  assumes "compile expected e = Ret (Success c)"
  shows "\<exists>ex. typeCheckExpression ex e = Ret (Checked (expression c))"
proof -
  from compile_Ret[OF assms] obtain expected' tr where
    tc: "typeCheckExpression expected' e = Ret tr"
    and rest: "(case tr of
              TypeErrors errors \<Rightarrow> Success c = Errors errors
            | Checked (Literal v t k) \<Rightarrow>
                Success c = Success \<lparr> js = [Stringify v], type = t, isFeatureConstant = True,
                                isZoomConstant = True, expression = Literal v t k \<rparr>
            | Checked (Call n et args k) \<Rightarrow>
                (\<exists>r as errors cs. et = Some (Lambda r as) \<and>
                   compile_arguments as args [] [] = Ret (errors, cs) \<and>
                   (if errors \<noteq> [] then Success c = Errors errors
                    else finish_call n r (Call n et args k) k cs = Ret (Success c))))"
    by blast
  show ?thesis
  proof (cases tr)
    case (TypeErrors es)
    then show ?thesis using rest by simp
  next
    case (Checked e')
    have "expression c = e'"
    proof (cases e')
      case (Literal v t k)
      then show ?thesis using rest Checked by auto
    next
      case (Call n et args k)
      then show ?thesis using rest Checked
        by (auto split: if_splits dest: finish_call_Success)
    qed
    then show ?thesis using tc Checked by blast
  qed
qed

text \<open>
  C5, as the claim states it, fails: \<open>["length", "abc"]\<close> compiles, and the argument type
  of the checked call is still the declared variant \<open>(Vector<T> | String)\<close>.
\<close>

theorem typename_remains_counterexample:
  "compileExpression accepting_host (JArr [JStr ''length'', JStr ''abc''])
     = Ret (Success compiled_length)
   \<and> annotated_typename (expression compiled_length)"
  by code_simp

text \<open>
  C5, amended.  When \<open>compileExpression\<close> succeeds, every literal of the checked tree has
  a primitive type, and every call of the checked tree has a lambda type whose result
  type and whose argument types are not themselves type names.  (A type name may still
  occur inside a declared argument type, as above.)
\<close>

theorem checked_types_resolved:
  assumes "compileExpression host_parses expr = Ret (Success c)"
  shows "literal_types_primitive (expression c) \<and> call_types_resolved (expression c)"
proof -
  from assms obtain parsed where p: "parseExpression [] expr = Ret parsed"
    and c: "compile None parsed = Ret (Success c)"
    by (auto simp: compileExpression_def split: outcome.splits compile_result.splits if_splits)
  from compile_flags_aux(1)[of None parsed c] c
  have "erase (expression c) = erase parsed" by blast
  then have "literal_types_primitive (expression c) = literal_types_primitive parsed"
    by (metis literal_types_erase)
  moreover have "literal_types_primitive parsed" using parse_literals(1)[OF p] .
  moreover from compile_expression_checked[OF c] typeCheck_resolved_aux(1)
  have "call_types_resolved (expression c)" by blast
  ultimately show ?thesis by simp
qed

theorem checked_types_resolved_witness:
  "compileExpression accepting_host
      (JArr [JStr ''=='', JArr [JStr ''get'', JArr [JStr ''properties''], JStr ''x''], JNum 1])
     = Ret (Success compiled_eq)
   \<and> lookup_expression (JStr ''=='') =
       Found (defineComparisonOp ''=='' False)
   \<and> dtype (defineComparisonOp ''=='' False) = Lambda BooleanType [Typename ''T'', Typename ''T'']
   \<and> etype_of (expression compiled_eq) = Some (Lambda BooleanType [ValueType, ValueType])
   \<and> literal_types_primitive (expression compiled_eq)
   \<and> call_types_resolved (expression compiled_eq)
   \<and> \<not> annotated_typename (expression compiled_eq)
   \<and> compileExpression accepting_host (JArr [JStr ''length'', JStr ''abc''])
     = Ret (Success compiled_length)
   \<and> literal_types_primitive (expression compiled_length)
   \<and> call_types_resolved (expression compiled_length)"
proof -
  have run: "compileExpression accepting_host (JArr [JStr ''length'', JStr ''abc''])
     = Ret (Success compiled_length)" by code_simp
  have run2: "compileExpression accepting_host
      (JArr [JStr ''=='', JArr [JStr ''get'', JArr [JStr ''properties''], JStr ''x''], JNum 1])
     = Ret (Success compiled_eq)" by code_simp
  have reg: "lookup_expression (JStr ''=='') = Found (defineComparisonOp ''=='' False)"
    "dtype (defineComparisonOp ''=='' False) = Lambda BooleanType [Typename ''T'', Typename ''T'']"
    by (simp_all add: lookup_expression_def expressions_def defineComparisonOp_def)
  have shape: "etype_of (expression compiled_eq) = Some (Lambda BooleanType [ValueType, ValueType])"
    "\<not> annotated_typename (expression compiled_eq)"
    by (simp_all add: compiled_eq_def ValueType_def BooleanType_def ObjectType_def
        StringType_def NumberType_def)
  from checked_types_resolved[OF run] checked_types_resolved[OF run2] run run2 reg shape
  show ?thesis by simp
qed

section \<open>Compile-time failures\<close>













text \<open>
  C2.  The mismatch in \<open>["+", 1, "two"]\<close> is found while the arguments are matched against
  the declared types, and is filed under the key of the call, which is the empty key of
  the root; the message is the one expected.  The same mismatch found by the recursive
  check, as in \<open>["==", 1, "a"]\<close>, is filed under the key of the argument, \<open>.2\<close>.
\<close>

theorem plus_mismatch_key:
  "compileExpression host_parses (JArr [JStr ''+'', JNum 1, JStr ''two'']) =
     Ret (Errors [\<lparr> error = [Txt ''Expected Number but found String instead.''], key = [] \<rparr>])
   \<and> compileExpression host_parses (JArr [JStr ''=='', JNum 1, JStr ''a'']) =
     Ret (Errors [\<lparr> error = [Txt ''Expected Number but found String instead.''],
                    key = ''.2'' \<rparr>])"
  by code_simp

text \<open>
  C3.  \<open>["^", 1]\<close> passes the type checker: the loop over the declared types stops when
  the one argument is used up, so one type was expanded for one argument and the counts
  agree.  The callback of \<open>^\<close> then reads its second argument and the compiler throws a
  \<open>TypeError\<close>.  One argument too many is reported.
\<close>

theorem caret_one_argument:
  "typeCheckExpression (Lambda NumberType [NumberType, NumberType])
      (Call (JStr ''^'') (Some (Lambda NumberType [NumberType, NumberType]))
         [Literal (JNum 1) NumberType ''.1''] []) =
     Ret (Checked (Call (JStr ''^'') (Some (Lambda NumberType [NumberType]))
         [Literal (JNum 1) NumberType ''.1''] []))
   \<and> compileExpression host_parses (JArr [JStr ''^'', JNum 1]) = Throw TypeError
   \<and> compileExpression host_parses (JArr [JStr ''^'', JNum 1, JNum 2, JNum 3]) =
     Ret (Errors [\<lparr> error = [Txt ''Expected 2 arguments, but found 3 instead.''], key = [] \<rparr>])"
  by code_simp

text \<open>
  C6.  For a curve with one stop the callback returns the text of the stop's thunk,
  \<open>() => 10\<close>, and not a call of it: the compiled expression applies \<open>Number\<close> to an arrow
  function.
\<close>

theorem single_stop_thunk:
  "compileExpression accepting_host single_stop_curve = Ret (Success compiled_single_stop)
   \<and> js compiled_single_stop =
       [Txt ''('', Txt ''Number('', Txt ''('', Txt ''() => '', Stringify (JNum 10),
        Txt '')'', Txt '')'', Txt '')'']"
  by code_simp


end
